theory Spec2Isabelle
  imports Complex_Main "HOL-Library.Word" "HOL-Library.Sublist"
begin

section \<open>Interface types and header constants\<close>

text \<open>
  The program (\<^verbatim>\<open>src/LearnOpenGL/main.cpp\<close>) is a sequence of calls into OpenGL, GLFW and
  the C++ stream library. Object names and enumerants are unsigned 32-bit values; the
  status words read back from the driver are C \<^verbatim>\<open>int\<close>s that are only compared with zero.
  The float literals of the source are carried as rationals: they are data handed to the
  driver, never computed with.
\<close>

type_synonym GLuint = "32 word"
type_synonym GLenum = "32 word"
type_synonym GLfloat = rat

text \<open>
  Enumerants of \<^verbatim>\<open>glad/glad.h\<close> and \<^verbatim>\<open>GLFW/glfw3.h\<close>. The headers are included by the
  source but are not part of the repository; the values are the ones the Khronos registry
  and GLFW 3.3 fix.
\<close>

definition GL_VERTEX_SHADER :: GLenum where "GL_VERTEX_SHADER = 0x8B31"
definition GL_FRAGMENT_SHADER :: GLenum where "GL_FRAGMENT_SHADER = 0x8B30"
definition GL_GEOMETRY_SHADER :: GLenum where "GL_GEOMETRY_SHADER = 0x8DD9"
definition GL_COMPILE_STATUS :: GLenum where "GL_COMPILE_STATUS = 0x8B81"
definition GL_LINK_STATUS :: GLenum where "GL_LINK_STATUS = 0x8B82"
definition GL_ARRAY_BUFFER :: GLenum where "GL_ARRAY_BUFFER = 0x8892"
definition GL_STATIC_DRAW :: GLenum where "GL_STATIC_DRAW = 0x88E4"
definition GL_FLOAT :: GLenum where "GL_FLOAT = 0x1406"
definition GL_TRIANGLES :: GLenum where "GL_TRIANGLES = 0x0004"
definition GL_COLOR_BUFFER_BIT :: GLenum where "GL_COLOR_BUFFER_BIT = 0x4000"

definition GLFW_CONTEXT_VERSION_MAJOR :: int where "GLFW_CONTEXT_VERSION_MAJOR = 0x22002"
definition GLFW_CONTEXT_VERSION_MINOR :: int where "GLFW_CONTEXT_VERSION_MINOR = 0x22003"
definition GLFW_OPENGL_PROFILE :: int where "GLFW_OPENGL_PROFILE = 0x22008"
definition GLFW_OPENGL_CORE_PROFILE :: int where "GLFW_OPENGL_CORE_PROFILE = 0x32001"
definition GLFW_KEY_ESCAPE :: int where "GLFW_KEY_ESCAPE = 256"
definition GLFW_PRESS :: int where "GLFW_PRESS = 1"
definition GLFW_RELEASE :: int where "GLFW_RELEASE = 0"

text \<open>Constants of the source, lines 12 to 14.\<close>

definition SCREEN_WIDTH :: nat where "SCREEN_WIDTH = 800"
definition SCREEN_HEIGHT :: nat where "SCREEN_HEIGHT = 600"
definition INFO_LOG_SIZE :: int where "INFO_LOG_SIZE = 512"

definition NUL :: char where "NUL = CHR 0x00"
definition endl :: string where "endl = [CHR 0x0A]"

text \<open>Reading a \<^verbatim>\<open>char*\<close>: the characters up to the first terminator.\<close>

definition c_str :: "string \<Rightarrow> string" where
  "c_str s = takeWhile (\<lambda>c. c \<noteq> NUL) s"

section \<open>Observable events\<close>

text \<open>
  Every call the program makes into the graphics and windowing libraries, and every line it
  writes to standard error, is one event; a run of the program is the list of its events in
  program order. There is one window, so the window argument is left out. A call that
  returns something the program uses carries the returned value as its last argument.
\<close>

datatype event =
    GlfwInit
  | GlfwWindowHint int int
  | GlfwCreateWindow nat nat string bool
  | GlfwMakeContextCurrent
  | GladLoadGLLoader bool
  | GlViewport int int int int
  | GlfwSetFramebufferSizeCallback
  | GlfwTerminate
  | Cerr string
  | GlCreateShader GLenum GLuint
  | GlShaderSource GLuint nat string
  | GlCompileShader GLuint
  | GlGetShaderiv GLuint GLenum int
  | GlGetShaderInfoLog GLuint int string
  | GlDeleteShader GLuint
  | GlCreateProgram GLuint
  | GlAttachShader GLuint GLuint
  | GlLinkProgram GLuint
  | GlGetProgramiv GLuint GLenum int
  | GlGetProgramInfoLog GLuint int string
  | GlDeleteProgram GLuint
  | GlGenVertexArrays nat GLuint
  | GlBindVertexArray GLuint
  | GlDeleteVertexArrays nat GLuint
  | GlGenBuffers nat GLuint
  | GlBindBuffer GLenum GLuint
  | GlBufferData GLenum nat "GLfloat list" GLenum
  | GlDeleteBuffers nat GLuint
  | GlVertexAttribPointer GLuint int GLenum bool nat nat
  | GlEnableVertexAttribArray GLuint
  | GlClearColor GLfloat GLfloat GLfloat GLfloat
  | GlClear GLenum
  | GlUseProgram GLuint
  | GlDrawArrays GLenum int int
  | GlfwWindowShouldClose bool
  | GlfwGetKey int int
  | GlfwSetWindowShouldClose bool
  | GlfwPollEvents
  | GlfwSwapBuffers

section \<open>The environment of a run\<close>

text \<open>
  What the stream library does with a path, as far as lines 186 to 199 can tell.
  \<^item> \<open>CannotOpen what\<close>: \<^verbatim>\<open>open\<close> fails. It sets \<^verbatim>\<open>failbit\<close> on \<^verbatim>\<open>shaderFile\<close>, whose
    exception mask (line 188) turns that into \<^verbatim>\<open>std::ifstream::failure\<close> with the
    message \<open>what\<close>.
  \<^item> \<open>Opens contents rd cl\<close>: \<^verbatim>\<open>open\<close> succeeds on a file holding \<open>contents\<close>. Line 192,
    \<^verbatim>\<open>shaderStream << shaderFile.rdbuf()\<close>, is the inserter of \<^verbatim>\<open>shaderStream\<close> for a stream
    buffer (C++ standard, [ostream.inserters]): it moves characters until the end of the
    file or until getting one fails, and puts what went wrong (nothing inserted, a failed
    read) into the state of \<^verbatim>\<open>shaderStream\<close>, whose exception mask is empty. The state of
    \<^verbatim>\<open>shaderFile\<close> is not touched, so the mask of line 188 has nothing to act on. \<open>rd\<close> says
    whether the read ran to the end or failed after some characters. \<open>cl\<close> is the message
    of the failure that \<^verbatim>\<open>close\<close> raises through \<^verbatim>\<open>failbit\<close>, if it fails.
  Running out of memory (\<^verbatim>\<open>std::bad_alloc\<close>) is left out.
\<close>

datatype read_result = ReadComplete | ReadFailsAfter nat

datatype file_status =
    CannotOpen string
  | Opens string read_result "string option"

text \<open>
  The answers of the outside world. Frames of the render loop are numbered from 0; the
  keyboard state, close requests and resize notifications are given per frame.
  \<^verbatim>\<open>glCreateShader\<close> answers by shader type, and the status and log queries answer by
  object name. Every query is taken to answer: it stores a status, or a terminated log,
  also for a name that the driver failed to make (where a real driver raises a GL error
  and leaves the program's variable as it was, uninitialised).
\<close>

record env =
  glfwCreateWindow_ok :: bool
  gladLoadGLLoader_ok :: bool
  file_system :: "string \<Rightarrow> file_status"
  glCreateShader_ret :: "GLenum \<Rightarrow> GLuint"
  compile_status :: "GLuint \<Rightarrow> int"
  shader_info_log :: "GLuint \<Rightarrow> string"
  glCreateProgram_ret :: GLuint
  link_status :: "GLuint \<Rightarrow> int"
  program_info_log :: "GLuint \<Rightarrow> string"
  glGenVertexArrays_ret :: GLuint
  glGenBuffers_ret :: GLuint
  glfwGetKey_ret :: "nat \<Rightarrow> int \<Rightarrow> int"
  close_requested :: "nat \<Rightarrow> bool"
  framebuffer_resizes :: "nat \<Rightarrow> (int \<times> int) list"

text \<open>
  \<^verbatim>\<open>glGetShaderInfoLog\<close> and \<^verbatim>\<open>glGetProgramInfoLog\<close> (OpenGL 3.3, section 6.1.10): the
  driver stores at most \<open>bufSize\<close> characters of its log in the caller's buffer, the
  terminator included. The result is what the call writes.
\<close>

definition glGetInfoLog :: "int \<Rightarrow> string \<Rightarrow> string" where
  "glGetInfoLog bufSize msg =
     (if bufSize \<le> 0 then [] else take (nat bufSize - 1) (c_str msg) @ [NUL])"

section \<open>The functions of main.cpp\<close>

text \<open>
  A stretch of \<^verbatim>\<open>main\<close> yields its events and either the exit code of an early
  \<^verbatim>\<open>return\<close> (\<open>Inl\<close>) or the values the rest of \<^verbatim>\<open>main\<close> goes on with (\<open>Inr\<close>).
\<close>

type_synonym 'a step = "event list \<times> (int + 'a)"

definition and_then :: "'a step \<Rightarrow> ('a \<Rightarrow> 'b step) \<Rightarrow> 'b step" where
  "and_then m f =
     (case m of
        (t, Inl code) \<Rightarrow> (t, Inl code)
      | (t, Inr x) \<Rightarrow> (case f x of (t', r) \<Rightarrow> (t @ t', r)))"

text \<open>\<^verbatim>\<open>framebuffer_size_callback\<close>, lines 173 to 175.\<close>

definition framebuffer_size_callback :: "int \<Rightarrow> int \<Rightarrow> event list" where
  "framebuffer_size_callback width height = [GlViewport 0 0 width height]"

text \<open>
  \<^verbatim>\<open>processInput\<close>, lines 178 to 182, in frame \<open>i\<close>; \<open>closing\<close> is the window's close flag,
  returned updated.
\<close>

definition processInput :: "env \<Rightarrow> nat \<Rightarrow> bool \<Rightarrow> event list \<times> bool" where
  "processInput e i closing =
     (let k = glfwGetKey_ret e i GLFW_KEY_ESCAPE in
      if k = GLFW_PRESS
      then ([GlfwGetKey GLFW_KEY_ESCAPE k, GlfwSetWindowShouldClose True], True)
      else ([GlfwGetKey GLFW_KEY_ESCAPE k], closing))"

text \<open>
  \<^verbatim>\<open>loadShaderSourceFromFile\<close>, lines 185 to 200. Only \<^verbatim>\<open>open\<close> and \<^verbatim>\<open>close\<close> act on
  \<^verbatim>\<open>shaderFile\<close> itself, so only they can raise the failure that line 196 catches.
\<close>

definition loadShaderSourceFromFile :: "env \<Rightarrow> string \<Rightarrow> event list \<times> string" where
  "loadShaderSourceFromFile e filePath =
     (let report = (\<lambda>what.
            Cerr (''ERROR::SHADER::FILE_NOT_SUCCESSFULLY_READ: '' @ filePath @ [CHR 0x0A]
                  @ what @ endl)) in
      case file_system e filePath of
        CannotOpen what \<Rightarrow> ([report what], '''')
      | Opens contents rd cl \<Rightarrow>
          (let shaderStream =
                 (case rd of ReadComplete \<Rightarrow> contents | ReadFailsAfter n \<Rightarrow> take n contents) in
           case cl of
             Some what \<Rightarrow> ([report what], '''')
           | None \<Rightarrow> ([], shaderStream)))"

text \<open>\<^verbatim>\<open>compileShader\<close>, lines 203 to 221; \<open>source\<close> is the C string passed in.\<close>

definition compileShader :: "env \<Rightarrow> GLenum \<Rightarrow> string \<Rightarrow> event list \<times> GLuint" where
  "compileShader e type source =
     (let shader = glCreateShader_ret e type;
          success = compile_status e shader;
          calls = [GlCreateShader type shader, GlShaderSource shader 1 source,
                   GlCompileShader shader, GlGetShaderiv shader GL_COMPILE_STATUS success] in
      if success = 0 then
        (let infoLog = glGetInfoLog INFO_LOG_SIZE (shader_info_log e shader);
             shaderTypeStr = (if type = GL_VERTEX_SHADER then ''VERTEX'' else ''FRAGMENT'') in
         (calls @
          [GlGetShaderInfoLog shader INFO_LOG_SIZE infoLog,
           Cerr (''ERROR::SHADER::'' @ shaderTypeStr @ ''::COMPILATION_FAILED'' @ [CHR 0x0A]
                 @ c_str infoLog @ endl),
           GlDeleteShader shader], 0))
      else (calls, shader))"

text \<open>
  \<^verbatim>\<open>main\<close>, lines 20 to 43: window and context. \<^verbatim>\<open>main\<close> returns \<open>-1\<close> on every failure.
\<close>

definition main_window :: "env \<Rightarrow> unit step" where
  "main_window e =
     (let created = glfwCreateWindow_ok e;
          hints = [GlfwInit,
                   GlfwWindowHint GLFW_CONTEXT_VERSION_MAJOR 3,
                   GlfwWindowHint GLFW_CONTEXT_VERSION_MINOR 3,
                   GlfwWindowHint GLFW_OPENGL_PROFILE GLFW_OPENGL_CORE_PROFILE,
                   GlfwCreateWindow SCREEN_WIDTH SCREEN_HEIGHT ''LearnOpenGL'' created] in
      if \<not> created then
        (hints @ [Cerr (''Failed to create GLFW window'' @ endl), GlfwTerminate], Inl (- 1))
      else
        (let loaded = gladLoadGLLoader_ok e;
             ctx = hints @ [GlfwMakeContextCurrent, GladLoadGLLoader loaded] in
         if \<not> loaded then
           (ctx @ [Cerr (''Failed to initialize GLAD'' @ endl), GlfwTerminate], Inl (- 1))
         else
           (ctx @ [GlViewport 0 0 (int SCREEN_WIDTH) (int SCREEN_HEIGHT),
                   GlfwSetFramebufferSizeCallback], Inr ())))"

text \<open>
  Lines 48 to 61: the two sources. \<^verbatim>\<open>empty()\<close> is asked of the \<^verbatim>\<open>std::string\<close>; what goes
  on to the compiler is its \<^verbatim>\<open>c_str()\<close>.
\<close>

definition main_sources :: "env \<Rightarrow> (string \<times> string) step" where
  "main_sources e =
     (case loadShaderSourceFromFile e ''vshader.vert'' of
        (tv, vertexShaderSourceString) \<Rightarrow>
          if vertexShaderSourceString = [] then (tv @ [GlfwTerminate], Inl (- 1))
          else
            (case loadShaderSourceFromFile e ''fshader.frag'' of
               (tf, fragmentShaderSourceString) \<Rightarrow>
                 if fragmentShaderSourceString = []
                 then (tv @ tf @ [GlfwTerminate], Inl (- 1))
                 else (tv @ tf,
                       Inr (c_str vertexShaderSourceString, c_str fragmentShaderSourceString))))"

text \<open>Lines 64 to 76: the two shader objects.\<close>

definition main_shaders :: "env \<Rightarrow> string \<Rightarrow> string \<Rightarrow> (GLuint \<times> GLuint) step" where
  "main_shaders e vertexShaderSource fragmentShaderSource =
     (case compileShader e GL_VERTEX_SHADER vertexShaderSource of
        (tv, vertexShader) \<Rightarrow>
          if vertexShader = 0 then (tv @ [GlfwTerminate], Inl (- 1))
          else
            (case compileShader e GL_FRAGMENT_SHADER fragmentShaderSource of
               (tf, fragmentShader) \<Rightarrow>
                 if fragmentShader = 0
                 then (tv @ tf @ [GlDeleteShader vertexShader, GlfwTerminate], Inl (- 1))
                 else (tv @ tf, Inr (vertexShader, fragmentShader))))"

text \<open>Lines 79 to 103: the program object.\<close>

definition main_program :: "env \<Rightarrow> GLuint \<Rightarrow> GLuint \<Rightarrow> GLuint step" where
  "main_program e vertexShader fragmentShader =
     (let shaderProgram = glCreateProgram_ret e;
          success = link_status e shaderProgram;
          calls = [GlCreateProgram shaderProgram,
                   GlAttachShader shaderProgram vertexShader,
                   GlAttachShader shaderProgram fragmentShader,
                   GlLinkProgram shaderProgram,
                   GlGetProgramiv shaderProgram GL_LINK_STATUS success] in
      if success = 0 then
        (let infoLog = glGetInfoLog INFO_LOG_SIZE (program_info_log e shaderProgram) in
         (calls @
          [GlGetProgramInfoLog shaderProgram INFO_LOG_SIZE infoLog,
           Cerr (''ERROR::SHADER::PROGRAM::LINKING_FAILED'' @ [CHR 0x0A]
                 @ c_str infoLog @ endl),
           GlDeleteShader vertexShader,
           GlDeleteShader fragmentShader,
           GlDeleteProgram shaderProgram,
           GlfwTerminate], Inl (- 1)))
      else
        (calls @ [GlDeleteShader vertexShader, GlDeleteShader fragmentShader],
         Inr shaderProgram))"

text \<open>Lines 108 to 141: the triangle. \<^verbatim>\<open>sizeof(float)\<close> is 4.\<close>

definition vertices :: "GLfloat list" where
  "vertices = [- (1 / 2), - (1 / 2), 0,
               1 / 2, - (1 / 2), 0,
               0, 1 / 2, 0]"

definition sizeof_float :: nat where "sizeof_float = 4"

definition main_vertices :: "env \<Rightarrow> event list \<times> GLuint \<times> GLuint" where
  "main_vertices e =
     (let VAO = glGenVertexArrays_ret e;
          VBO = glGenBuffers_ret e in
      ([GlGenVertexArrays 1 VAO,
        GlBindVertexArray VAO,
        GlGenBuffers 1 VBO,
        GlBindBuffer GL_ARRAY_BUFFER VBO,
        GlBufferData GL_ARRAY_BUFFER (length vertices * sizeof_float) vertices GL_STATIC_DRAW,
        GlVertexAttribPointer 0 3 GL_FLOAT False (3 * sizeof_float) 0,
        GlEnableVertexAttribArray 0,
        GlBindBuffer GL_ARRAY_BUFFER 0,
        GlBindVertexArray 0], VAO, VBO))"

text \<open>
  \<^verbatim>\<open>glfwPollEvents\<close> in frame \<open>i\<close>: GLFW runs the registered framebuffer-size callback once
  per resize notification and raises the close flag when the user asked to close the window.
\<close>

definition glfwPollEvents :: "env \<Rightarrow> nat \<Rightarrow> bool \<Rightarrow> event list \<times> bool" where
  "glfwPollEvents e i closing =
     (GlfwPollEvents #
        concat (map (\<lambda>(w, h). framebuffer_size_callback w h) (framebuffer_resizes e i)),
      closing \<or> close_requested e i)"

text \<open>Lines 145 to 161: the body of the render loop in frame \<open>i\<close>.\<close>

definition render_body :: "env \<Rightarrow> GLuint \<Rightarrow> GLuint \<Rightarrow> nat \<Rightarrow> bool \<Rightarrow> event list \<times> bool" where
  "render_body e shaderProgram VAO i closing =
     (case processInput e i closing of
        (tin, c1) \<Rightarrow>
          (case glfwPollEvents e i c1 of
             (tpoll, c2) \<Rightarrow>
               ([GlClearColor (1 / 5) (3 / 10) (3 / 10) 1,
                 GlClear GL_COLOR_BUFFER_BIT,
                 GlUseProgram shaderProgram,
                 GlBindVertexArray VAO,
                 GlDrawArrays GL_TRIANGLES 0 3] @ tin @ tpoll @ [GlfwSwapBuffers], c2)))"

text \<open>
  Line 144: the loop. It runs for as long as nobody closes the window, so the model watches
  it for a number of evaluations of its condition: \<open>render_loop e p v n i closing\<close> gives the
  events of at most \<open>n\<close> evaluations, starting in frame \<open>i\<close>, and says whether the loop was
  left within them.
\<close>

fun render_loop :: "env \<Rightarrow> GLuint \<Rightarrow> GLuint \<Rightarrow> nat \<Rightarrow> nat \<Rightarrow> bool \<Rightarrow> event list \<times> bool" where
  "render_loop e shaderProgram VAO 0 i closing = ([], False)"
| "render_loop e shaderProgram VAO (Suc n) i closing =
     (if closing then ([GlfwWindowShouldClose True], True)
      else
        (case render_body e shaderProgram VAO i closing of
           (tb, c) \<Rightarrow>
             (case render_loop e shaderProgram VAO n (Suc i) c of
                (later, left) \<Rightarrow> (GlfwWindowShouldClose False # tb @ later, left))))"

text \<open>
  \<^verbatim>\<open>main\<close> up to the loop, and \<^verbatim>\<open>main\<close> as a whole (lines 16 to 170). A new GLFW window
  has its close flag unset. The result is the run's events and the value \<^verbatim>\<open>main\<close> returns,
  or \<open>None\<close> while the loop is still running after \<open>fuel\<close> evaluations of its condition.
\<close>

definition main_setup :: "env \<Rightarrow> (GLuint \<times> GLuint \<times> GLuint) step" where
  "main_setup e =
     and_then (main_window e) (\<lambda>_.
     and_then (main_sources e) (\<lambda>(vertexShaderSource, fragmentShaderSource).
     and_then (main_shaders e vertexShaderSource fragmentShaderSource)
       (\<lambda>(vertexShader, fragmentShader).
     and_then (main_program e vertexShader fragmentShader) (\<lambda>shaderProgram.
       (case main_vertices e of (t, VAO, VBO) \<Rightarrow> (t, Inr (shaderProgram, VAO, VBO)))))))"

definition main :: "env \<Rightarrow> nat \<Rightarrow> event list \<times> int option" where
  "main e fuel =
     (case main_setup e of
        (t, Inl code) \<Rightarrow> (t, Some code)
      | (t, Inr (shaderProgram, VAO, VBO)) \<Rightarrow>
          (case render_loop e shaderProgram VAO fuel 0 False of
             (frames, left) \<Rightarrow>
               if left then
                 (t @ frames @ [GlDeleteVertexArrays 1 VAO, GlDeleteBuffers 1 VBO,
                            GlDeleteProgram shaderProgram, GlfwTerminate], Some 0)
               else (t @ frames, None)))"

section \<open>A sample environment\<close>

text \<open>
  Everything succeeds: both files are there, the driver hands out the names 1, 2 and 3,
  and the user presses escape in frame 2 after resizing the window in frame 1.
\<close>

definition sample_env :: env where
  "sample_env =
     \<lparr> glfwCreateWindow_ok = True,
       gladLoadGLLoader_ok = True,
       file_system = (\<lambda>p. if p = ''vshader.vert'' then Opens ''void main(){}'' ReadComplete None
                          else if p = ''fshader.frag'' then Opens ''void main(){ }'' ReadComplete None
                          else CannotOpen ''basic_ios::clear: iostream error''),
       glCreateShader_ret = (\<lambda>t. if t = GL_VERTEX_SHADER then 1 else 2),
       compile_status = (\<lambda>_. 1),
       shader_info_log = (\<lambda>_. ''0:1(1): error: syntax error''),
       glCreateProgram_ret = 3,
       link_status = (\<lambda>_. 1),
       program_info_log = (\<lambda>_. ''error: linking failed''),
       glGenVertexArrays_ret = 1,
       glGenBuffers_ret = 1,
       glfwGetKey_ret = (\<lambda>i k. if i = 2 \<and> k = GLFW_KEY_ESCAPE then GLFW_PRESS else GLFW_RELEASE),
       close_requested = (\<lambda>_. False),
       framebuffer_resizes = (\<lambda>i. if i = 1 then [(1024, 768)] else []) \<rparr>"

text \<open>The fragment shader (name 2) does not compile.\<close>

definition fragment_error_env :: env where
  "fragment_error_env = sample_env \<lparr> compile_status := (\<lambda>h. if h = 2 then 0 else 1) \<rparr>"

text \<open>The program does not link.\<close>

definition link_error_env :: env where
  "link_error_env = sample_env \<lparr> link_status := (\<lambda>_. 0) \<rparr>"

text \<open>There is no file \<^verbatim>\<open>vshader.vert\<close>.\<close>

definition missing_file_env :: env where
  "missing_file_env =
     sample_env \<lparr> file_system := (\<lambda>p. if p = ''fshader.frag'' then Opens ''void main(){ }'' ReadComplete None
                                       else CannotOpen ''basic_ios::clear: iostream error'') \<rparr>"

text \<open>\<^verbatim>\<open>vshader.vert\<close> is there and has no characters.\<close>

definition empty_file_env :: env where
  "empty_file_env =
     sample_env \<lparr> file_system := (\<lambda>p. if p = ''vshader.vert'' then Opens [] ReadComplete None
                                       else file_system sample_env p) \<rparr>"

text \<open>
  \<^verbatim>\<open>vshader.vert\<close> can be opened and cannot be read, as a directory of that name on Linux:
  the first read fails.
\<close>

definition unreadable_file_env :: env where
  "unreadable_file_env =
     sample_env \<lparr> file_system := (\<lambda>p. if p = ''vshader.vert'' then Opens [] (ReadFailsAfter 0) None
                                       else file_system sample_env p) \<rparr>"

text \<open>Reading \<^verbatim>\<open>vshader.vert\<close> fails after its first four characters.\<close>

definition failing_read_env :: env where
  "failing_read_env =
     sample_env \<lparr> file_system := (\<lambda>p. if p = ''vshader.vert''
                                       then Opens ''void main(){}'' (ReadFailsAfter 4) None
                                       else file_system sample_env p) \<rparr>"

section \<open>Reading a run\<close>

subsection \<open>The objects of the driver\<close>

text \<open>
  An object is a name together with the kind of call that made it. The name 0 is never an
  object: the creating calls return it on failure and the deleting calls ignore it.
\<close>

datatype gl_object = Shader GLuint | Program GLuint | VertexArray GLuint | Buffer GLuint

definition named :: "(GLuint \<Rightarrow> gl_object) \<Rightarrow> GLuint \<Rightarrow> gl_object option" where
  "named kind h = (if h = 0 then None else Some (kind h))"

definition creates :: "event \<Rightarrow> gl_object option" where
  "creates x =
     (case x of
        GlCreateShader ty h \<Rightarrow> named Shader h
      | GlCreateProgram h \<Rightarrow> named Program h
      | GlGenVertexArrays n h \<Rightarrow> named VertexArray h
      | GlGenBuffers n h \<Rightarrow> named Buffer h
      | _ \<Rightarrow> None)"

definition deletes :: "event \<Rightarrow> gl_object option" where
  "deletes x =
     (case x of
        GlDeleteShader h \<Rightarrow> named Shader h
      | GlDeleteProgram h \<Rightarrow> named Program h
      | GlDeleteVertexArrays n h \<Rightarrow> named VertexArray h
      | GlDeleteBuffers n h \<Rightarrow> named Buffer h
      | _ \<Rightarrow> None)"

primrec created :: "event list \<Rightarrow> gl_object list" where
  "created [] = []"
| "created (x # t) = (case creates x of None \<Rightarrow> created t | Some obj \<Rightarrow> obj # created t)"

primrec deleted :: "event list \<Rightarrow> gl_object list" where
  "deleted [] = []"
| "deleted (x # t) = (case deletes x of None \<Rightarrow> deleted t | Some obj \<Rightarrow> obj # deleted t)"

text \<open>
  The ledger of live objects along a run. It breaks (\<open>None\<close>) when a delete call is given
  an object that is not live (never made, or deleted before) and when a creating call
  returns a name that is still live. A run with \<open>ledger [] t = Some []\<close> has released
  everything it made, each object by one call.
\<close>

primrec ledger :: "gl_object list \<Rightarrow> event list \<Rightarrow> gl_object list option" where
  "ledger live [] = Some live"
| "ledger live (x # t) =
     (case creates x of
        Some obj \<Rightarrow> if obj \<in> set live then None else ledger (obj # live) t
      | None \<Rightarrow>
          (case deletes x of
             Some obj \<Rightarrow> if obj \<in> set live then ledger (removeAll obj live) t else None
           | None \<Rightarrow> ledger live t))"

definition is_program :: "gl_object \<Rightarrow> bool" where
  "is_program obj = (case obj of Program h \<Rightarrow> True | _ \<Rightarrow> False)"

definition is_shader :: "gl_object \<Rightarrow> bool" where
  "is_shader obj = (case obj of Shader h \<Rightarrow> True | _ \<Rightarrow> False)"

subsection \<open>Kinds of calls\<close>

definition is_link_call :: "event \<Rightarrow> bool" where
  "is_link_call x =
     (case x of
        GlCreateProgram h \<Rightarrow> True
      | GlAttachShader p h \<Rightarrow> True
      | GlLinkProgram p \<Rightarrow> True
      | _ \<Rightarrow> False)"

definition is_draw :: "event \<Rightarrow> bool" where
  "is_draw x = (case x of GlDrawArrays m f c \<Rightarrow> True | _ \<Rightarrow> False)"

definition is_buffer_data :: "event \<Rightarrow> bool" where
  "is_buffer_data x = (case x of GlBufferData tg n d u \<Rightarrow> True | _ \<Rightarrow> False)"

definition close_check :: "event \<Rightarrow> bool option" where
  "close_check x = (case x of GlfwWindowShouldClose b \<Rightarrow> Some b | _ \<Rightarrow> None)"

primrec stderr_of :: "event list \<Rightarrow> string list" where
  "stderr_of [] = []"
| "stderr_of (x # t) = (case x of Cerr s \<Rightarrow> s # stderr_of t | _ \<Rightarrow> stderr_of t)"

text \<open>The calls of each stretch of the program, by name.\<close>

definition startup_call :: "event \<Rightarrow> bool" where
  "startup_call x =
     (case x of
        GlfwInit \<Rightarrow> True
      | GlfwWindowHint h v \<Rightarrow> True
      | GlfwCreateWindow w h n r \<Rightarrow> True
      | GlfwMakeContextCurrent \<Rightarrow> True
      | GladLoadGLLoader r \<Rightarrow> True
      | GlViewport x y w h \<Rightarrow> True
      | GlfwSetFramebufferSizeCallback \<Rightarrow> True
      | GlfwTerminate \<Rightarrow> True
      | Cerr s \<Rightarrow> True
      | _ \<Rightarrow> False)"

definition shader_call :: "event \<Rightarrow> bool" where
  "shader_call x =
     (case x of
        GlCreateShader ty h \<Rightarrow> True
      | GlShaderSource h n s \<Rightarrow> True
      | GlCompileShader h \<Rightarrow> True
      | GlGetShaderiv h p r \<Rightarrow> True
      | GlGetShaderInfoLog h n w \<Rightarrow> True
      | GlDeleteShader h \<Rightarrow> True
      | GlfwTerminate \<Rightarrow> True
      | Cerr s \<Rightarrow> True
      | _ \<Rightarrow> False)"

definition program_call :: "event \<Rightarrow> bool" where
  "program_call x =
     (case x of
        GlCreateProgram h \<Rightarrow> True
      | GlAttachShader p h \<Rightarrow> True
      | GlLinkProgram p \<Rightarrow> True
      | GlGetProgramiv h p r \<Rightarrow> True
      | GlGetProgramInfoLog h n w \<Rightarrow> True
      | GlDeleteShader h \<Rightarrow> True
      | GlDeleteProgram h \<Rightarrow> True
      | GlfwTerminate \<Rightarrow> True
      | Cerr s \<Rightarrow> True
      | _ \<Rightarrow> False)"

definition frame_call :: "event \<Rightarrow> bool" where
  "frame_call x =
     (case x of
        GlfwWindowShouldClose b \<Rightarrow> True
      | GlClearColor r g b a \<Rightarrow> True
      | GlClear m \<Rightarrow> True
      | GlUseProgram p \<Rightarrow> True
      | GlBindVertexArray v \<Rightarrow> True
      | GlDrawArrays m f c \<Rightarrow> True
      | GlfwGetKey k s \<Rightarrow> True
      | GlfwSetWindowShouldClose b \<Rightarrow> True
      | GlfwPollEvents \<Rightarrow> True
      | GlViewport x y w h \<Rightarrow> True
      | GlfwSwapBuffers \<Rightarrow> True
      | _ \<Rightarrow> False)"

subsection \<open>Draw calls and the close flag\<close>

text \<open>
  \<open>draws_guarded ok t\<close>: every draw call of \<open>t\<close> comes after an evaluation of the loop
  condition, and the latest one before it saw the close flag unset. \<open>ok\<close> says whether
  that holds where \<open>t\<close> starts.
\<close>

primrec draws_guarded :: "bool \<Rightarrow> event list \<Rightarrow> bool" where
  "draws_guarded ok [] = True"
| "draws_guarded ok (x # t) =
     (case close_check x of
        Some b \<Rightarrow> draws_guarded (\<not> b) t
      | None \<Rightarrow> (if is_draw x then ok else True) \<and> draws_guarded ok t)"

text \<open>\<open>quiet_after_close t\<close>: once the condition has seen the flag set, nothing is drawn.\<close>

primrec quiet_after_close :: "event list \<Rightarrow> bool" where
  "quiet_after_close [] = True"
| "quiet_after_close (x # t) =
     (if close_check x = Some True then \<not> list_ex is_draw t else quiet_after_close t)"

subsection \<open>Error reports\<close>

text \<open>
  The tags of lines 28, 36, 92, 197 and 216. A report that carries a driver log has one of
  the \<open>log_tags\<close>; what follows the tag is the log and the line end.
\<close>

definition plain_reports :: "string list" where
  "plain_reports = [''Failed to create GLFW window'' @ endl, ''Failed to initialize GLAD'' @ endl]"

definition file_tag :: string where
  "file_tag = ''ERROR::SHADER::FILE_NOT_SUCCESSFULLY_READ: ''"

definition log_tags :: "string list" where
  "log_tags = [''ERROR::SHADER::VERTEX::COMPILATION_FAILED'' @ [CHR 0x0A],
               ''ERROR::SHADER::FRAGMENT::COMPILATION_FAILED'' @ [CHR 0x0A],
               ''ERROR::SHADER::PROGRAM::LINKING_FAILED'' @ [CHR 0x0A]]"

definition report_ok :: "string \<Rightarrow> bool" where
  "report_ok s =
     (s \<in> set plain_reports \<or> prefix file_tag s \<or>
      list_ex (\<lambda>tag. prefix tag s \<and> length (drop (length tag) s) \<le> nat INFO_LOG_SIZE) log_tags)"

text \<open>
  A log query is in bounds when it passes the size of the buffer of lines 88 and 211 and
  the driver's answer fits that buffer.
\<close>

definition log_query_ok :: "event \<Rightarrow> bool" where
  "log_query_ok x =
     (case x of
        GlGetShaderInfoLog h n w \<Rightarrow> n = INFO_LOG_SIZE \<and> int (length w) \<le> INFO_LOG_SIZE
      | GlGetProgramInfoLog h n w \<Rightarrow> n = INFO_LOG_SIZE \<and> int (length w) \<le> INFO_LOG_SIZE
      | Cerr s \<Rightarrow> report_ok s
      | _ \<Rightarrow> True)"

subsection \<open>Buffer contents\<close>

text \<open>
  What the calls of a run do to the data stores of buffer objects (OpenGL 3.3, section 2.9):
  \<^verbatim>\<open>glBindBuffer\<close> selects the buffer of a target, \<^verbatim>\<open>glBufferData\<close> replaces the store of
  the buffer bound to its target by \<open>size\<close> bytes read from the pointer, \<^verbatim>\<open>glDeleteBuffers\<close>
  drops the store. The state is the buffer bound to \<^verbatim>\<open>GL_ARRAY_BUFFER\<close> and the stores.
\<close>

type_synonym buffers = "GLuint \<times> (GLuint \<Rightarrow> GLfloat list option)"

definition buffer_step :: "buffers \<Rightarrow> event \<Rightarrow> buffers" where
  "buffer_step s x =
     (case x of
        GlBindBuffer tg b \<Rightarrow> if tg = GL_ARRAY_BUFFER then (b, snd s) else s
      | GlBufferData tg n d u \<Rightarrow>
          if tg = GL_ARRAY_BUFFER \<and> fst s \<noteq> 0
          then (fst s, (snd s)(fst s \<mapsto> take (n div sizeof_float) d))
          else s
      | GlDeleteBuffers n b \<Rightarrow> (if fst s = b then 0 else fst s, (snd s)(b := None))
      | _ \<Rightarrow> s)"

definition buffers_after :: "event list \<Rightarrow> buffers" where
  "buffers_after t = foldl buffer_step (0, Map.empty) t"

section \<open>Facts about runs\<close>

subsection \<open>Reading a concatenation\<close>

lemma created_append: "created (a @ b) = created a @ created b"
  by (induction a) (simp_all split: option.split)

lemma deleted_append: "deleted (a @ b) = deleted a @ deleted b"
  by (induction a) (simp_all split: option.split)

lemma stderr_of_append: "stderr_of (a @ b) = stderr_of a @ stderr_of b"
  by (induction a) (simp_all split: event.split)

lemma ledger_append:
  "ledger live (a @ b) = (case ledger live a of None \<Rightarrow> None | Some live' \<Rightarrow> ledger live' b)"
  by (induction a arbitrary: live) (simp_all split: option.split)

subsection \<open>The calls of the render loop\<close>

lemma frame_call_processInput: "list_all frame_call (fst (processInput e i c))"
  by (simp add: processInput_def Let_def frame_call_def)

lemma frame_call_callbacks:
  "list_all frame_call (concat (map (\<lambda>(w, h). framebuffer_size_callback w h) rs))"
  by (induction rs) (auto simp: framebuffer_size_callback_def frame_call_def)

lemma frame_call_glfwPollEvents: "list_all frame_call (fst (glfwPollEvents e i c))"
  using frame_call_callbacks by (simp add: glfwPollEvents_def frame_call_def)

lemma frame_call_render_body: "list_all frame_call (fst (render_body e p v i c))"
  by (simp add: render_body_def case_prod_beta frame_call_processInput frame_call_glfwPollEvents)
    (simp add: frame_call_def)

lemma frame_call_render_loop: "list_all frame_call (fst (render_loop e p v n i c))"
proof (induction n arbitrary: i c)
  case 0
  show ?case by simp
next
  case (Suc n)
  show ?case
    by (simp add: case_prod_beta frame_call_render_body Suc) (simp add: frame_call_def)
qed

lemma frame_call_neutral:
  "frame_call x \<Longrightarrow> creates x = None \<and> deletes x = None \<and> \<not> is_link_call x
     \<and> \<not> is_buffer_data x \<and> log_query_ok x \<and> buffer_step s x = s"
  by (cases x) (simp_all add: frame_call_def creates_def deletes_def is_link_call_def is_buffer_data_def
      log_query_ok_def buffer_step_def)

subsection \<open>The events of an iteration and of the loop\<close>

lemma processInput_events:
  "fst (processInput e i c) =
     GlfwGetKey GLFW_KEY_ESCAPE (glfwGetKey_ret e i GLFW_KEY_ESCAPE) #
       (if glfwGetKey_ret e i GLFW_KEY_ESCAPE = GLFW_PRESS then [GlfwSetWindowShouldClose True] else [])"
  by (simp add: processInput_def Let_def)

lemma processInput_flag:
  "snd (processInput e i c) = (c \<or> glfwGetKey_ret e i GLFW_KEY_ESCAPE = GLFW_PRESS)"
  by (simp add: processInput_def Let_def)

lemma callbacks_events:
  "concat (map (\<lambda>(w, h). framebuffer_size_callback w h) rs) = map (\<lambda>(w, h). GlViewport 0 0 w h) rs"
  by (induction rs) (auto simp: framebuffer_size_callback_def)

lemma glfwPollEvents_events:
  "fst (glfwPollEvents e i c) = GlfwPollEvents # map (\<lambda>(w, h). GlViewport 0 0 w h) (framebuffer_resizes e i)"
  by (simp add: glfwPollEvents_def callbacks_events)

lemma render_body_events:
  "fst (render_body e p v i c) =
     [GlClearColor (1 / 5) (3 / 10) (3 / 10) 1, GlClear GL_COLOR_BUFFER_BIT,
      GlUseProgram p, GlBindVertexArray v, GlDrawArrays GL_TRIANGLES 0 3]
     @ fst (processInput e i c)
     @ fst (glfwPollEvents e i (snd (processInput e i c)))
     @ [GlfwSwapBuffers]"
  by (simp add: render_body_def case_prod_beta)

lemma render_body_flag:
  "snd (render_body e p v i c) =
     (c \<or> glfwGetKey_ret e i GLFW_KEY_ESCAPE = GLFW_PRESS \<or> close_requested e i)"
  by (simp add: render_body_def case_prod_beta glfwPollEvents_def processInput_flag)

lemma render_loop_frames:
  "\<exists>k\<le>n. fst (render_loop e p v n i c) =
      concat (map (\<lambda>j. GlfwWindowShouldClose False # fst (render_body e p v j False)) [i..<i + k])
      @ (if snd (render_loop e p v n i c) then [GlfwWindowShouldClose True] else [])"
proof (induction n arbitrary: i c)
  case 0
  show ?case by simp
next
  case (Suc n)
  show ?case
  proof (cases c)
    case True
    then show ?thesis by (intro exI [of _ 0]) simp
  next
    case False
    obtain k where k: "k \<le> n"
      "fst (render_loop e p v n (Suc i) (snd (render_body e p v i False))) =
        concat (map (\<lambda>j. GlfwWindowShouldClose False # fst (render_body e p v j False)) [Suc i..<Suc i + k])
        @ (if snd (render_loop e p v n (Suc i) (snd (render_body e p v i False)))
           then [GlfwWindowShouldClose True] else [])"
      using Suc [of "Suc i" "snd (render_body e p v i False)"] by blast
    have "[i..<i + Suc k] = i # [Suc i..<Suc i + k]"
      by (simp add: upt_rec)
    with False k show ?thesis
      by (intro exI [of _ "Suc k"]) (simp add: case_prod_beta)
  qed
qed

subsection \<open>Draw calls behind the loop condition\<close>

lemma draws_guarded_skip:
  "\<forall>x\<in>set a. close_check x = None \<and> \<not> is_draw x \<Longrightarrow> draws_guarded ok (a @ b) = draws_guarded ok b"
  by (induction a) simp_all

lemma draws_guarded_open:
  "\<forall>x\<in>set a. close_check x = None \<Longrightarrow> draws_guarded True (a @ b) = draws_guarded True b"
  by (induction a) simp_all

lemma draws_guarded_no_draw:
  "\<forall>x\<in>set a. close_check x = None \<and> \<not> is_draw x \<Longrightarrow> draws_guarded ok a"
  using draws_guarded_skip [of a ok "[]"] by simp

lemma render_body_no_check: "\<forall>x\<in>set (fst (render_body e p v i c)). close_check x = None"
  by (auto simp: render_body_events processInput_events glfwPollEvents_events close_check_def)

lemma render_loop_guarded:
  "\<forall>x\<in>set r. close_check x = None \<and> \<not> is_draw x \<Longrightarrow>
     draws_guarded ok (fst (render_loop e p v n i c) @ r)"
proof (induction n arbitrary: i c ok)
  case 0
  then show ?case by (simp add: draws_guarded_no_draw)
next
  case (Suc n)
  show ?case
  proof (cases c)
    case True
    with Suc.prems show ?thesis by (simp add: close_check_def draws_guarded_no_draw)
  next
    case False
    then show ?thesis
      using Suc.IH [OF Suc.prems] render_body_no_check [of e p v i False]
      by (simp add: case_prod_beta close_check_def draws_guarded_open)
  qed
qed

lemma quiet_after_close_skip:
  "\<forall>x\<in>set a. close_check x \<noteq> Some True \<Longrightarrow> quiet_after_close (a @ b) = quiet_after_close b"
  by (induction a) simp_all

lemma quiet_no_check: "\<forall>x\<in>set a. close_check x \<noteq> Some True \<Longrightarrow> quiet_after_close a"
  using quiet_after_close_skip [of a "[]"] by simp

lemma render_loop_quiet:
  "\<not> list_ex is_draw r \<Longrightarrow> \<forall>x\<in>set r. close_check x \<noteq> Some True \<Longrightarrow>
     quiet_after_close (fst (render_loop e p v n i c) @ r)"
proof (induction n arbitrary: i c)
  case 0
  then show ?case by (simp add: quiet_no_check)
next
  case (Suc n)
  show ?case
  proof (cases c)
    case True
    with Suc.prems show ?thesis by (simp add: close_check_def)
  next
    case False
    have "\<forall>x\<in>set (fst (render_body e p v i False)). close_check x \<noteq> Some True"
      using render_body_no_check [of e p v i False] by simp
    with False show ?thesis
      using Suc.IH [OF Suc.prems]
      by (simp add: case_prod_beta close_check_def quiet_after_close_skip)
  qed
qed

subsection \<open>The paths through main\<close>

lemma main_early: "main_setup e = (s, Inl code) \<Longrightarrow> main e fuel = (s, Some code)"
  by (simp add: main_def)

lemma main_loop:
  "main_setup e = (s, Inr (p, v, b)) \<Longrightarrow>
     main e fuel =
       (if snd (render_loop e p v fuel 0 False)
        then (s @ fst (render_loop e p v fuel 0 False)
                @ [GlDeleteVertexArrays 1 v, GlDeleteBuffers 1 b, GlDeleteProgram p, GlfwTerminate], Some 0)
        else (s @ fst (render_loop e p v fuel 0 False), None))"
  by (simp add: main_def case_prod_beta)

lemma main_setup_cases:
  assumes window: "\<And>w c. main_window e = (w, Inl c) \<Longrightarrow> main_setup e = (w, Inl c) \<Longrightarrow> R"
    and sources: "\<And>w s c. main_window e = (w, Inr ()) \<Longrightarrow> main_sources e = (s, Inl c) \<Longrightarrow>
        main_setup e = (w @ s, Inl c) \<Longrightarrow> R"
    and shaders: "\<And>w s a b sh c. main_window e = (w, Inr ()) \<Longrightarrow> main_sources e = (s, Inr (a, b)) \<Longrightarrow>
        main_shaders e a b = (sh, Inl c) \<Longrightarrow> main_setup e = (w @ s @ sh, Inl c) \<Longrightarrow> R"
    and program: "\<And>w s a b sh v f pr c. main_window e = (w, Inr ()) \<Longrightarrow>
        main_sources e = (s, Inr (a, b)) \<Longrightarrow> main_shaders e a b = (sh, Inr (v, f)) \<Longrightarrow>
        main_program e v f = (pr, Inl c) \<Longrightarrow> main_setup e = (w @ s @ sh @ pr, Inl c) \<Longrightarrow> R"
    and ready: "\<And>w s a b sh v f pr p. main_window e = (w, Inr ()) \<Longrightarrow>
        main_sources e = (s, Inr (a, b)) \<Longrightarrow> main_shaders e a b = (sh, Inr (v, f)) \<Longrightarrow>
        main_program e v f = (pr, Inr p) \<Longrightarrow>
        main_setup e = (w @ s @ sh @ pr @ fst (main_vertices e),
                        Inr (p, glGenVertexArrays_ret e, glGenBuffers_ret e)) \<Longrightarrow> R"
  shows R
proof (cases "main_window e")
  case W: (Pair w rw)
  show ?thesis
  proof (cases rw)
    case (Inl c)
    with W show ?thesis by (intro window [of w c]) (simp_all add: main_setup_def and_then_def)
  next
    case Inr
    with W have W': "main_window e = (w, Inr ())" by simp
    show ?thesis
    proof (cases "main_sources e")
      case S: (Pair s rs)
      show ?thesis
      proof (cases rs)
        case (Inl c)
        with W' S show ?thesis by (intro sources [of w s c]) (simp_all add: main_setup_def and_then_def)
      next
        case (Inr ab)
        obtain a b where ab: "ab = (a, b)" by (cases ab)
        note S' = S [unfolded Inr ab]
        show ?thesis
        proof (cases "main_shaders e a b")
          case Sh: (Pair sh rsh)
          show ?thesis
          proof (cases rsh)
            case (Inl c)
            with W' S' Sh show ?thesis
              by (intro shaders [of w s a b sh c]) (simp_all add: main_setup_def and_then_def)
          next
            case (Inr vf)
            obtain v f where vf: "vf = (v, f)" by (cases vf)
            note Sh' = Sh [unfolded Inr vf]
            show ?thesis
            proof (cases "main_program e v f")
              case P: (Pair pr rp)
              show ?thesis
              proof (cases rp)
                case (Inl c)
                with W' S' Sh' P show ?thesis
                  by (intro program [of w s a b sh v f pr c]) (simp_all add: main_setup_def and_then_def)
              next
                case (Inr p)
                with W' S' Sh' P show ?thesis
                  by (intro ready [of w s a b sh v f pr p])
                    (simp_all add: main_setup_def and_then_def main_vertices_def Let_def)
              qed
            qed
          qed
        qed
      qed
    qed
  qed
qed

subsection \<open>What the calls of a stage leave alone\<close>

lemma startup_call_neutral:
  "startup_call x \<Longrightarrow> creates x = None \<and> deletes x = None \<and> \<not> is_link_call x
     \<and> \<not> is_buffer_data x \<and> buffer_step s x = s \<and> \<not> is_draw x \<and> close_check x = None
     \<and> x \<noteq> GlGetShaderiv h p r"
  by (cases x) (simp_all add: startup_call_def creates_def deletes_def is_link_call_def
      is_buffer_data_def buffer_step_def is_draw_def close_check_def)

lemma shader_call_neutral:
  "shader_call x \<Longrightarrow> \<not> is_link_call x
     \<and> \<not> is_buffer_data x \<and> buffer_step s x = s \<and> \<not> is_draw x \<and> close_check x = None"
  by (cases x) (simp_all add: shader_call_def is_link_call_def
      is_buffer_data_def buffer_step_def is_draw_def close_check_def)

lemma program_call_neutral:
  "program_call x \<Longrightarrow> \<not> is_buffer_data x \<and> buffer_step s x = s \<and> \<not> is_draw x \<and> close_check x = None
     \<and> x \<noteq> GlGetShaderiv h p r"
  by (cases x) (simp_all add: program_call_def
      is_buffer_data_def buffer_step_def is_draw_def close_check_def)

lemma frame_call_quiet: "frame_call x \<Longrightarrow> x \<noteq> GlGetShaderiv h p r \<and> x \<noteq> Cerr s"
  by (cases x) (simp_all add: frame_call_def)

subsection \<open>Window and context\<close>

lemma window_calls: "list_all startup_call (fst (main_window e))"
  by (simp add: main_window_def Let_def startup_call_def)

lemma window_code: "main_window e = (w, Inl c) \<Longrightarrow> c = - 1"
  by (simp add: main_window_def Let_def split: if_splits)

lemma window_reports: "list_all log_query_ok (fst (main_window e))"
  by (simp add: main_window_def Let_def log_query_ok_def report_ok_def plain_reports_def)

subsection \<open>Source files\<close>

lemma load_calls: "list_all startup_call (fst (loadShaderSourceFromFile e p))"
  by (simp add: loadShaderSourceFromFile_def Let_def startup_call_def
      split: file_status.split option.split)

lemma load_reports: "list_all log_query_ok (fst (loadShaderSourceFromFile e p))"
  by (simp add: loadShaderSourceFromFile_def Let_def log_query_ok_def report_ok_def file_tag_def
      split: file_status.split option.split)

lemma sources_events:
  "fst (main_sources e) =
     fst (loadShaderSourceFromFile e ''vshader.vert'')
     @ (if snd (loadShaderSourceFromFile e ''vshader.vert'') = [] then []
        else fst (loadShaderSourceFromFile e ''fshader.frag''))
     @ (case snd (main_sources e) of Inl c \<Rightarrow> [GlfwTerminate] | Inr x \<Rightarrow> [])"
  by (simp add: main_sources_def case_prod_beta)

lemma sources_calls: "list_all startup_call (fst (main_sources e))"
  by (simp add: sources_events load_calls split: sum.split) (simp add: startup_call_def)

lemma sources_reports: "list_all log_query_ok (fst (main_sources e))"
  by (simp add: sources_events load_reports split: sum.split) (simp add: log_query_ok_def)

lemma sources_code: "main_sources e = (s, Inl c) \<Longrightarrow> c = - 1"
  by (simp add: main_sources_def case_prod_beta split: if_splits)

subsection \<open>The driver log in the buffer\<close>

lemma c_str_all: "\<forall>c\<in>set (c_str s). c \<noteq> NUL"
  by (auto simp: c_str_def dest: set_takeWhileD)

lemma c_str_glGetInfoLog: "0 < n \<Longrightarrow> c_str (glGetInfoLog n msg) = take (nat n - 1) (c_str msg)"
proof -
  assume n: "0 < n"
  have "\<forall>c\<in>set (take (nat n - 1) (c_str msg)). c \<noteq> NUL"
    using c_str_all [of msg] by (auto dest: in_set_takeD)
  then have "takeWhile (\<lambda>c. c \<noteq> NUL) (take (nat n - 1) (c_str msg) @ [NUL]) = take (nat n - 1) (c_str msg)"
    by (simp add: takeWhile_tail)
  with n show ?thesis by (simp add: glGetInfoLog_def c_str_def [of "_ @ _"])
qed

lemma length_glGetInfoLog: "0 < n \<Longrightarrow> int (length (glGetInfoLog n msg)) \<le> n"
  by (simp add: glGetInfoLog_def)

lemma length_info_log: "int (length (glGetInfoLog INFO_LOG_SIZE msg)) \<le> INFO_LOG_SIZE"
  by (rule length_glGetInfoLog) (simp add: INFO_LOG_SIZE_def)

lemma length_reported_log: "length (c_str (glGetInfoLog INFO_LOG_SIZE msg)) < 512"
  by (simp add: c_str_glGetInfoLog INFO_LOG_SIZE_def)

subsection \<open>Compiling one shader\<close>

lemma compileShader_fail:
  "compile_status e (glCreateShader_ret e ty) = 0 \<Longrightarrow>
     compileShader e ty src =
       ([GlCreateShader ty (glCreateShader_ret e ty),
         GlShaderSource (glCreateShader_ret e ty) 1 src,
         GlCompileShader (glCreateShader_ret e ty),
         GlGetShaderiv (glCreateShader_ret e ty) GL_COMPILE_STATUS 0,
         GlGetShaderInfoLog (glCreateShader_ret e ty) INFO_LOG_SIZE
           (glGetInfoLog INFO_LOG_SIZE (shader_info_log e (glCreateShader_ret e ty))),
         Cerr (''ERROR::SHADER::'' @ (if ty = GL_VERTEX_SHADER then ''VERTEX'' else ''FRAGMENT'')
               @ ''::COMPILATION_FAILED'' @ [CHR 0x0A]
               @ c_str (glGetInfoLog INFO_LOG_SIZE (shader_info_log e (glCreateShader_ret e ty)))
               @ endl),
         GlDeleteShader (glCreateShader_ret e ty)], 0)"
  by (simp add: compileShader_def Let_def)

lemma compileShader_ok:
  "compile_status e (glCreateShader_ret e ty) \<noteq> 0 \<Longrightarrow>
     compileShader e ty src =
       ([GlCreateShader ty (glCreateShader_ret e ty),
         GlShaderSource (glCreateShader_ret e ty) 1 src,
         GlCompileShader (glCreateShader_ret e ty),
         GlGetShaderiv (glCreateShader_ret e ty) GL_COMPILE_STATUS
           (compile_status e (glCreateShader_ret e ty))], glCreateShader_ret e ty)"
  by (simp add: compileShader_def Let_def)

lemma compile_result:
  "snd (compileShader e ty src) =
     (if compile_status e (glCreateShader_ret e ty) = 0 then 0 else glCreateShader_ret e ty)"
  by (simp add: compileShader_fail compileShader_ok)

lemma compile_calls: "list_all shader_call (fst (compileShader e ty src))"
  by (cases "compile_status e (glCreateShader_ret e ty) = 0")
    (simp_all add: compileShader_fail compileShader_ok shader_call_def)

lemma compile_report_ok:
  "report_ok (''ERROR::SHADER::'' @ (if ty = GL_VERTEX_SHADER then ''VERTEX'' else ''FRAGMENT'')
               @ ''::COMPILATION_FAILED'' @ [CHR 0x0A]
               @ c_str (glGetInfoLog INFO_LOG_SIZE msg) @ endl)"
  using length_reported_log [of msg]
  by (simp add: report_ok_def log_tags_def endl_def INFO_LOG_SIZE_def)

lemma compile_reports: "list_all log_query_ok (fst (compileShader e ty src))"
  by (cases "compile_status e (glCreateShader_ret e ty) = 0")
    (simp_all add: compileShader_fail compileShader_ok log_query_ok_def compile_report_ok
      length_info_log del: append.simps)

lemma compile_created:
  "created (fst (compileShader e ty src)) =
     (if glCreateShader_ret e ty = 0 then [] else [Shader (glCreateShader_ret e ty)])"
  by (cases "compile_status e (glCreateShader_ret e ty) = 0")
    (simp_all add: compileShader_fail compileShader_ok creates_def named_def)

lemma compile_deleted:
  "deleted (fst (compileShader e ty src)) =
     (if compile_status e (glCreateShader_ret e ty) = 0 \<and> glCreateShader_ret e ty \<noteq> 0
      then [Shader (glCreateShader_ret e ty)] else [])"
  by (cases "compile_status e (glCreateShader_ret e ty) = 0")
    (simp_all add: compileShader_fail compileShader_ok deletes_def named_def)

lemma compile_ledger:
  "Shader (glCreateShader_ret e ty) \<notin> set live \<Longrightarrow>
     ledger live (fst (compileShader e ty src)) =
       Some (if snd (compileShader e ty src) = 0 then live else Shader (glCreateShader_ret e ty) # live)"
  by (cases "compile_status e (glCreateShader_ret e ty) = 0")
    (simp_all add: compileShader_fail compileShader_ok creates_def deletes_def named_def)

subsection \<open>The two shaders\<close>

lemma shaders_events:
  "fst (main_shaders e a b) =
     fst (compileShader e GL_VERTEX_SHADER a)
     @ (if snd (compileShader e GL_VERTEX_SHADER a) = 0 then [GlfwTerminate]
        else fst (compileShader e GL_FRAGMENT_SHADER b)
          @ (if snd (compileShader e GL_FRAGMENT_SHADER b) = 0
             then [GlDeleteShader (snd (compileShader e GL_VERTEX_SHADER a)), GlfwTerminate]
             else []))"
  by (simp add: main_shaders_def case_prod_beta)

lemma shaders_result:
  "snd (main_shaders e a b) =
     (if snd (compileShader e GL_VERTEX_SHADER a) = 0 \<or> snd (compileShader e GL_FRAGMENT_SHADER b) = 0
      then Inl (- 1)
      else Inr (snd (compileShader e GL_VERTEX_SHADER a), snd (compileShader e GL_FRAGMENT_SHADER b)))"
  by (simp add: main_shaders_def case_prod_beta)

lemma shaders_calls: "list_all shader_call (fst (main_shaders e a b))"
  by (simp add: shaders_events compile_calls) (simp add: shader_call_def)

lemma shaders_reports: "list_all log_query_ok (fst (main_shaders e a b))"
  by (simp add: shaders_events compile_reports) (simp add: log_query_ok_def)

lemma shaders_ok:
  assumes "main_shaders e a b = (sh, Inr (v, f))"
  shows "v = glCreateShader_ret e GL_VERTEX_SHADER" and "f = glCreateShader_ret e GL_FRAGMENT_SHADER"
    and "v \<noteq> 0" and "f \<noteq> 0"
    and "compile_status e (glCreateShader_ret e GL_VERTEX_SHADER) \<noteq> 0"
    and "compile_status e (glCreateShader_ret e GL_FRAGMENT_SHADER) \<noteq> 0"
    and "sh = fst (compileShader e GL_VERTEX_SHADER a) @ fst (compileShader e GL_FRAGMENT_SHADER b)"
proof -
  from assms have r: "snd (main_shaders e a b) = Inr (v, f)" and t: "fst (main_shaders e a b) = sh"
    by simp_all
  from r have *: "snd (compileShader e GL_VERTEX_SHADER a) = v \<and> v \<noteq> 0
      \<and> snd (compileShader e GL_FRAGMENT_SHADER b) = f \<and> f \<noteq> 0"
    by (auto simp: shaders_result split: if_splits)
  from * show "v = glCreateShader_ret e GL_VERTEX_SHADER" "f = glCreateShader_ret e GL_FRAGMENT_SHADER"
    "v \<noteq> 0" "f \<noteq> 0"
    "compile_status e (glCreateShader_ret e GL_VERTEX_SHADER) \<noteq> 0"
    "compile_status e (glCreateShader_ret e GL_FRAGMENT_SHADER) \<noteq> 0"
    by (auto simp: compile_result split: if_splits)
  from * t show "sh = fst (compileShader e GL_VERTEX_SHADER a) @ fst (compileShader e GL_FRAGMENT_SHADER b)"
    by (auto simp: shaders_events split: if_splits)
qed

lemma shaders_ok_events:
  assumes "main_shaders e a b = (sh, Inr (v, f))"
  shows "sh = [GlCreateShader GL_VERTEX_SHADER v, GlShaderSource v 1 a, GlCompileShader v,
               GlGetShaderiv v GL_COMPILE_STATUS (compile_status e v),
               GlCreateShader GL_FRAGMENT_SHADER f, GlShaderSource f 1 b, GlCompileShader f,
               GlGetShaderiv f GL_COMPILE_STATUS (compile_status e f)]"
  unfolding shaders_ok(7) [OF assms] shaders_ok(1) [OF assms] shaders_ok(2) [OF assms]
  using shaders_ok(5) [OF assms] shaders_ok(6) [OF assms] by (simp add: compileShader_ok)

lemma shaders_failed:
  assumes "main_shaders e a b = (sh, Inl c)"
  shows "c = - 1 \<and> (\<forall>ty h. h \<noteq> 0 \<longrightarrow> GlCreateShader ty h \<in> set sh \<longrightarrow> GlDeleteShader h \<in> set sh)"
proof -
  from assms have r: "snd (main_shaders e a b) = Inl c" and t: "fst (main_shaders e a b) = sh"
    by simp_all
  from r have c: "c = - 1"
    by (auto simp: shaders_result split: if_splits)
  from r have "snd (compileShader e GL_VERTEX_SHADER a) = 0 \<or> snd (compileShader e GL_FRAGMENT_SHADER b) = 0"
    by (auto simp: shaders_result split: if_splits)
  then have "\<forall>ty h. h \<noteq> 0 \<longrightarrow> GlCreateShader ty h \<in> set (fst (main_shaders e a b))
      \<longrightarrow> GlDeleteShader h \<in> set (fst (main_shaders e a b))"
    by (cases "compile_status e (glCreateShader_ret e GL_VERTEX_SHADER) = 0";
        cases "compile_status e (glCreateShader_ret e GL_FRAGMENT_SHADER) = 0")
      (auto simp: shaders_events compileShader_fail compileShader_ok)
  with c t show ?thesis by simp
qed

lemma shaders_ledger:
  assumes "glCreateShader_ret e GL_VERTEX_SHADER \<noteq> glCreateShader_ret e GL_FRAGMENT_SHADER"
  shows "ledger [] (fst (main_shaders e a b)) =
     Some (case snd (main_shaders e a b) of Inl c \<Rightarrow> [] | Inr (v, f) \<Rightarrow> [Shader f, Shader v])"
  using assms
  by (simp add: shaders_events shaders_result ledger_append compile_ledger compile_result
      creates_def deletes_def named_def)

lemma shaders_created:
  "created (fst (main_shaders e a b)) =
     (if glCreateShader_ret e GL_VERTEX_SHADER = 0 then [] else [Shader (glCreateShader_ret e GL_VERTEX_SHADER)])
     @ (if snd (compileShader e GL_VERTEX_SHADER a) = 0 \<or> glCreateShader_ret e GL_FRAGMENT_SHADER = 0 then []
        else [Shader (glCreateShader_ret e GL_FRAGMENT_SHADER)])"
  by (simp add: shaders_events created_append compile_created creates_def)

lemma shaders_deleted_failed:
  assumes "main_shaders e a b = (sh, Inl c)"
  shows "set (deleted sh) = set (created sh)"
proof -
  from assms have r: "snd (main_shaders e a b) = Inl c" and t: "sh = fst (main_shaders e a b)"
    by simp_all
  from r have "snd (compileShader e GL_VERTEX_SHADER a) = 0 \<or> snd (compileShader e GL_FRAGMENT_SHADER b) = 0"
    by (auto simp: shaders_result split: if_splits)
  then show ?thesis unfolding t shaders_created
    by (auto simp: shaders_events deleted_append compile_deleted deletes_def named_def compile_result
        split: if_splits)
qed

lemma shaders_deleted_distinct:
  assumes "glCreateShader_ret e GL_VERTEX_SHADER \<noteq> glCreateShader_ret e GL_FRAGMENT_SHADER"
  shows "distinct (deleted (fst (main_shaders e a b)))"
  using assms
  by (simp add: shaders_events deleted_append compile_deleted deletes_def named_def compile_result)

lemma shaders_deleted_ok:
  assumes "main_shaders e a b = (sh, Inr (v, f))"
  shows "deleted sh = [] \<and> created sh = [Shader v, Shader f]"
proof -
  have "v \<noteq> 0" "f \<noteq> 0" by (rule shaders_ok(3) [OF assms], rule shaders_ok(4) [OF assms])
  then show ?thesis
    unfolding shaders_ok_events [OF assms] by (simp add: creates_def deletes_def named_def)
qed

subsection \<open>The program\<close>

lemma link_report_ok:
  "report_ok (''ERROR::SHADER::PROGRAM::LINKING_FAILED'' @ [CHR 0x0A]
               @ c_str (glGetInfoLog INFO_LOG_SIZE msg) @ endl)"
  using length_reported_log [of msg]
  by (simp add: report_ok_def log_tags_def endl_def INFO_LOG_SIZE_def)

lemma program_fail:
  "link_status e (glCreateProgram_ret e) = 0 \<Longrightarrow>
     main_program e v f =
       ([GlCreateProgram (glCreateProgram_ret e),
         GlAttachShader (glCreateProgram_ret e) v,
         GlAttachShader (glCreateProgram_ret e) f,
         GlLinkProgram (glCreateProgram_ret e),
         GlGetProgramiv (glCreateProgram_ret e) GL_LINK_STATUS 0,
         GlGetProgramInfoLog (glCreateProgram_ret e) INFO_LOG_SIZE
           (glGetInfoLog INFO_LOG_SIZE (program_info_log e (glCreateProgram_ret e))),
         Cerr (''ERROR::SHADER::PROGRAM::LINKING_FAILED'' @ [CHR 0x0A]
               @ c_str (glGetInfoLog INFO_LOG_SIZE (program_info_log e (glCreateProgram_ret e)))
               @ endl),
         GlDeleteShader v, GlDeleteShader f, GlDeleteProgram (glCreateProgram_ret e),
         GlfwTerminate], Inl (- 1))"
  by (simp add: main_program_def Let_def)

lemma program_ok:
  "link_status e (glCreateProgram_ret e) \<noteq> 0 \<Longrightarrow>
     main_program e v f =
       ([GlCreateProgram (glCreateProgram_ret e),
         GlAttachShader (glCreateProgram_ret e) v,
         GlAttachShader (glCreateProgram_ret e) f,
         GlLinkProgram (glCreateProgram_ret e),
         GlGetProgramiv (glCreateProgram_ret e) GL_LINK_STATUS (link_status e (glCreateProgram_ret e)),
         GlDeleteShader v, GlDeleteShader f], Inr (glCreateProgram_ret e))"
  by (simp add: main_program_def Let_def)

lemma program_result:
  "snd (main_program e v f) =
     (if link_status e (glCreateProgram_ret e) = 0 then Inl (- 1) else Inr (glCreateProgram_ret e))"
  by (simp add: program_fail program_ok)

lemma program_calls: "list_all program_call (fst (main_program e v f))"
  by (cases "link_status e (glCreateProgram_ret e) = 0")
    (simp_all add: program_fail program_ok program_call_def)

lemma program_reports: "list_all log_query_ok (fst (main_program e v f))"
  by (cases "link_status e (glCreateProgram_ret e) = 0")
    (simp_all add: program_fail program_ok log_query_ok_def link_report_ok length_info_log
      del: append.simps)

lemma program_ledger:
  "v \<noteq> 0 \<Longrightarrow> f \<noteq> 0 \<Longrightarrow> v \<noteq> f \<Longrightarrow>
     ledger [Shader f, Shader v] (fst (main_program e v f)) =
       Some (case snd (main_program e v f) of
               Inl c \<Rightarrow> []
             | Inr p \<Rightarrow> if p = 0 then [] else [Program p])"
  by (cases "link_status e (glCreateProgram_ret e) = 0")
    (simp_all add: program_fail program_ok creates_def deletes_def named_def)

lemma program_created:
  "created (fst (main_program e v f)) =
     (if glCreateProgram_ret e = 0 then [] else [Program (glCreateProgram_ret e)])"
  by (cases "link_status e (glCreateProgram_ret e) = 0")
    (simp_all add: program_fail program_ok creates_def deletes_def named_def)

lemma program_deleted:
  "v \<noteq> 0 \<Longrightarrow> f \<noteq> 0 \<Longrightarrow>
   deleted (fst (main_program e v f)) =
     [Shader v, Shader f] @
     (if link_status e (glCreateProgram_ret e) = 0 \<and> glCreateProgram_ret e \<noteq> 0
      then [Program (glCreateProgram_ret e)] else [])"
  by (cases "link_status e (glCreateProgram_ret e) = 0")
    (simp_all add: program_fail program_ok creates_def deletes_def named_def)

subsection \<open>The triangle\<close>

lemma vertices_events:
  "fst (main_vertices e) =
     [GlGenVertexArrays 1 (glGenVertexArrays_ret e),
      GlBindVertexArray (glGenVertexArrays_ret e),
      GlGenBuffers 1 (glGenBuffers_ret e),
      GlBindBuffer GL_ARRAY_BUFFER (glGenBuffers_ret e),
      GlBufferData GL_ARRAY_BUFFER 36 vertices GL_STATIC_DRAW,
      GlVertexAttribPointer 0 3 GL_FLOAT False 12 0,
      GlEnableVertexAttribArray 0,
      GlBindBuffer GL_ARRAY_BUFFER 0,
      GlBindVertexArray 0]"
  by (simp add: main_vertices_def Let_def vertices_def sizeof_float_def)

subsection \<open>The ledger along a run\<close>

lemma neutral_ledger:
  assumes "\<forall>x\<in>set t. creates x = None \<and> deletes x = None"
  shows "ledger live t = Some live" and "created t = []" and "deleted t = []"
  using assms by (induction t) simp_all

lemma startup_ledger:
  assumes "list_all startup_call t"
  shows "ledger live t = Some live" and "created t = []" and "deleted t = []"
  by (rule neutral_ledger; use assms in \<open>simp add: list_all_iff startup_call_neutral\<close>)+

lemma frames_ledger:
  shows "ledger live (fst (render_loop e p v n i c)) = Some live"
    and "created (fst (render_loop e p v n i c)) = []"
    and "deleted (fst (render_loop e p v n i c)) = []"
  by (rule neutral_ledger;
      use frame_call_render_loop [of e p v n i c] in \<open>simp add: list_all_iff frame_call_neutral\<close>)+

lemma vertices_cleanup_ledger:
  "ledger (if p = 0 then [] else [Program p])
     (fst (main_vertices e) @ fst (render_loop e p v n i c)
      @ [GlDeleteVertexArrays 1 (glGenVertexArrays_ret e), GlDeleteBuffers 1 (glGenBuffers_ret e),
         GlDeleteProgram p, GlfwTerminate]) = Some []"
  by (simp add: ledger_append frames_ledger vertices_events creates_def deletes_def named_def)

lemma vertices_created:
  "created (fst (main_vertices e)) =
     (if glGenVertexArrays_ret e = 0 then [] else [VertexArray (glGenVertexArrays_ret e)])
     @ (if glGenBuffers_ret e = 0 then [] else [Buffer (glGenBuffers_ret e)])"
  by (simp add: vertices_events creates_def named_def)

lemma vertices_deleted: "deleted (fst (main_vertices e)) = []"
  by (simp add: vertices_events deletes_def)

section \<open>Release of GPU objects\<close>

text \<open>
  C1. Along every path on which \<^verbatim>\<open>main\<close> returns (normal exit, no window, no loader, an
  empty source, a shader that does not compile, a program that does not link), every GPU
  object that was made (vertex shader, fragment shader, program, vertex array, vertex
  buffer) is handed to a delete call exactly once before the return: the ledger of the run
  never breaks and ends empty, no object occurs twice among the deleted ones, and the
  deleted objects are the created ones. The driver gives two live shaders distinct names.
\<close>

theorem gpu_objects_released_exactly_once:
  assumes fresh: "glCreateShader_ret e GL_VERTEX_SHADER \<noteq> glCreateShader_ret e GL_FRAGMENT_SHADER"
    and exits: "main e fuel = (t, Some code)"
  shows "ledger [] t = Some [] \<and> distinct (deleted t) \<and> set (deleted t) = set (created t)"
proof (rule main_setup_cases [of e])
  fix w c
  assume "main_window e = (w, Inl c)" and ms: "main_setup e = (w, Inl c)"
  then have "list_all startup_call w"
    using window_calls [of e] by simp
  moreover have "t = w"
    using main_early [OF ms, of fuel] exits by simp
  ultimately show ?thesis
    by (simp add: startup_ledger)
next
  fix w s c
  assume "main_window e = (w, Inr ())" "main_sources e = (s, Inl c)"
    and ms: "main_setup e = (w @ s, Inl c)"
  then have "list_all startup_call (w @ s)"
    using window_calls [of e] sources_calls [of e] by simp
  moreover have "t = w @ s"
    using main_early [OF ms, of fuel] exits by simp
  ultimately show ?thesis
    by (simp add: startup_ledger)
next
  fix w s a b sh c
  assume W: "main_window e = (w, Inr ())" and S: "main_sources e = (s, Inr (a, b))"
    and Sh: "main_shaders e a b = (sh, Inl c)" and ms: "main_setup e = (w @ s @ sh, Inl c)"
  have "list_all startup_call w" "list_all startup_call s"
    using window_calls [of e] sources_calls [of e] W S by simp_all
  note ws = startup_ledger [OF this(1)] startup_ledger [OF this(2)]
  have t: "t = w @ s @ sh"
    using main_early [OF ms, of fuel] exits by simp
  have "ledger [] sh = Some []"
    using shaders_ledger [OF fresh, of a b] Sh by simp
  moreover have "distinct (deleted sh)"
    using shaders_deleted_distinct [OF fresh, of a b] Sh by simp
  moreover note shaders_deleted_failed [OF Sh]
  ultimately show ?thesis
    unfolding t by (simp add: ledger_append created_append deleted_append ws)
next
  fix w s a b sh v f pr c
  assume W: "main_window e = (w, Inr ())" and S: "main_sources e = (s, Inr (a, b))"
    and Sh: "main_shaders e a b = (sh, Inr (v, f))" and P: "main_program e v f = (pr, Inl c)"
    and ms: "main_setup e = (w @ s @ sh @ pr, Inl c)"
  have "list_all startup_call w" "list_all startup_call s"
    using window_calls [of e] sources_calls [of e] W S by simp_all
  note ws = startup_ledger [OF this(1)] startup_ledger [OF this(2)]
  have t: "t = w @ s @ sh @ pr"
    using main_early [OF ms, of fuel] exits by simp
  have v: "v \<noteq> 0" and f: "f \<noteq> 0" and vf: "v \<noteq> f"
    using shaders_ok(1-4) [OF Sh] fresh by simp_all
  have "ledger [] sh = Some [Shader f, Shader v]"
    using shaders_ledger [OF fresh, of a b] Sh by simp
  moreover have "ledger [Shader f, Shader v] pr = Some []"
    using program_ledger [OF v f vf, of e] P by simp
  moreover have "deleted sh = []" "created sh = [Shader v, Shader f]"
    using shaders_deleted_ok [OF Sh] by simp_all
  moreover have "link_status e (glCreateProgram_ret e) = 0"
    using P program_result [of e v f] by (simp split: if_splits)
  then have "deleted pr = [Shader v, Shader f] @ created pr"
    using program_deleted [OF v f, of e] program_created [of e v f] P by simp
  ultimately show ?thesis
    unfolding t using vf
    by (simp add: ledger_append created_append deleted_append ws)
      (auto simp: program_created [of e v f, unfolded P, simplified])
next
  fix w s a b sh v f pr p
  assume W: "main_window e = (w, Inr ())" and S: "main_sources e = (s, Inr (a, b))"
    and Sh: "main_shaders e a b = (sh, Inr (v, f))" and P: "main_program e v f = (pr, Inr p)"
    and ms: "main_setup e = (w @ s @ sh @ pr @ fst (main_vertices e),
                        Inr (p, glGenVertexArrays_ret e, glGenBuffers_ret e))"
  let ?vao = "glGenVertexArrays_ret e" and ?vbo = "glGenBuffers_ret e"
  let ?frames = "fst (render_loop e p ?vao fuel 0 False)"
  let ?cleanup = "[GlDeleteVertexArrays 1 ?vao, GlDeleteBuffers 1 ?vbo, GlDeleteProgram p, GlfwTerminate]"
  have "list_all startup_call w" "list_all startup_call s"
    using window_calls [of e] sources_calls [of e] W S by simp_all
  note ws = startup_ledger [OF this(1)] startup_ledger [OF this(2)]
  define rest where "rest = fst (main_vertices e) @ ?frames @ ?cleanup"
  have t: "t = w @ s @ sh @ pr @ rest"
    using main_loop [OF ms, of fuel] exits by (simp add: rest_def split: if_splits)
  have v: "v \<noteq> 0" and f: "f \<noteq> 0" and vf: "v \<noteq> f"
    using shaders_ok(1-4) [OF Sh] fresh by simp_all
  have l1: "ledger [] sh = Some [Shader f, Shader v]"
    using shaders_ledger [OF fresh, of a b] Sh by simp
  have l2: "ledger [Shader f, Shader v] pr = Some (if p = 0 then [] else [Program p])"
    using program_ledger [OF v f vf, of e] P by simp
  have l3: "ledger (if p = 0 then [] else [Program p]) rest = Some []"
    unfolding rest_def by (rule vertices_cleanup_ledger)
  have p: "p = glCreateProgram_ret e" and link: "link_status e (glCreateProgram_ret e) \<noteq> 0"
    using P program_result [of e v f] by (simp_all split: if_splits)
  have c1: "deleted sh = []" "created sh = [Shader v, Shader f]"
    using shaders_deleted_ok [OF Sh] by simp_all
  have c2: "deleted pr = [Shader v, Shader f]" "created pr = (if p = 0 then [] else [Program p])"
    using program_deleted [OF v f, of e] program_created [of e v f] P link p by simp_all
  have c3: "deleted rest = (if ?vao = 0 then [] else [VertexArray ?vao])
       @ (if ?vbo = 0 then [] else [Buffer ?vbo]) @ (if p = 0 then [] else [Program p])"
    by (simp add: rest_def deleted_append frames_ledger vertices_deleted deletes_def named_def)
  have c4: "created rest = (if ?vao = 0 then [] else [VertexArray ?vao])
       @ (if ?vbo = 0 then [] else [Buffer ?vbo])"
    by (simp add: rest_def created_append frames_ledger vertices_created creates_def)
  have "ledger [] t = Some []"
    unfolding t by (simp only: ledger_append ws l1 l2 l3 option.case)
  moreover have "distinct (deleted t) \<and> set (deleted t) = set (created t)"
    unfolding t created_append deleted_append c1 c2 c3 c4 ws
    using vf by auto
  ultimately show ?thesis by simp
qed

lemma sample_names: "glCreateShader_ret sample_env GL_VERTEX_SHADER \<noteq> glCreateShader_ret sample_env GL_FRAGMENT_SHADER"
  by (simp add: sample_env_def GL_VERTEX_SHADER_def GL_FRAGMENT_SHADER_def)

lemma sample_exit: "snd (main sample_env 4) = Some 0"
  by code_simp

theorem gpu_objects_released_exactly_once_witness:
  "glCreateShader_ret sample_env GL_VERTEX_SHADER \<noteq> glCreateShader_ret sample_env GL_FRAGMENT_SHADER
   \<and> snd (main sample_env 4) = Some 0
   \<and> ledger [] (fst (main sample_env 4)) = Some []
   \<and> distinct (deleted (fst (main sample_env 4)))
   \<and> set (deleted (fst (main sample_env 4))) = set (created (fst (main sample_env 4)))"
proof -
  have "main sample_env 4 = (fst (main sample_env 4), Some 0)"
    using sample_exit by (simp add: prod_eq_iff)
  from gpu_objects_released_exactly_once [OF sample_names this] sample_names sample_exit
  show ?thesis by simp
qed

section \<open>Compile and link failures\<close>

lemma startup_call_no_shader: "\<not> startup_call (GlCreateShader k n)"
  by (simp add: startup_call_def)

text \<open>
  C2. A shader whose compile status is false: \<^verbatim>\<open>compileShader\<close> asks the driver for its log
  with the size of the 512-byte buffer, writes the log to standard error under the tag of
  the shader kind, deletes the shader object and returns 0. In every run of \<^verbatim>\<open>main\<close> in which
  a compile-status query answered false, \<^verbatim>\<open>main\<close> returns \<open>-1\<close>, makes none of the calls that
  build a program, and every shader object that was made (the vertex shader too, when it
  is the fragment shader that fails) has been handed to \<^verbatim>\<open>glDeleteShader\<close>.
\<close>

theorem failed_compile_aborts_setup:
  "(compile_status e (glCreateShader_ret e ty) = 0 \<longrightarrow>
      compileShader e ty src =
        ([GlCreateShader ty (glCreateShader_ret e ty),
          GlShaderSource (glCreateShader_ret e ty) 1 src,
          GlCompileShader (glCreateShader_ret e ty),
          GlGetShaderiv (glCreateShader_ret e ty) GL_COMPILE_STATUS 0,
          GlGetShaderInfoLog (glCreateShader_ret e ty) INFO_LOG_SIZE
            (glGetInfoLog INFO_LOG_SIZE (shader_info_log e (glCreateShader_ret e ty))),
          Cerr (''ERROR::SHADER::'' @ (if ty = GL_VERTEX_SHADER then ''VERTEX'' else ''FRAGMENT'')
                @ ''::COMPILATION_FAILED'' @ [CHR 0x0A]
                @ c_str (glGetInfoLog INFO_LOG_SIZE (shader_info_log e (glCreateShader_ret e ty)))
                @ endl),
          GlDeleteShader (glCreateShader_ret e ty)], 0)
      \<and> length (c_str (glGetInfoLog INFO_LOG_SIZE (shader_info_log e (glCreateShader_ret e ty)))) < 512)
   \<and> (GlGetShaderiv h GL_COMPILE_STATUS 0 \<in> set (fst (main e fuel)) \<longrightarrow>
        snd (main e fuel) = Some (- 1)
        \<and> \<not> list_ex is_link_call (fst (main e fuel))
        \<and> (\<forall>k n. n \<noteq> 0 \<longrightarrow> GlCreateShader k n \<in> set (fst (main e fuel))
              \<longrightarrow> GlDeleteShader n \<in> set (fst (main e fuel))))"
proof (intro conjI impI)
  assume "compile_status e (glCreateShader_ret e ty) = 0"
  then show "compileShader e ty src =
        ([GlCreateShader ty (glCreateShader_ret e ty),
          GlShaderSource (glCreateShader_ret e ty) 1 src,
          GlCompileShader (glCreateShader_ret e ty),
          GlGetShaderiv (glCreateShader_ret e ty) GL_COMPILE_STATUS 0,
          GlGetShaderInfoLog (glCreateShader_ret e ty) INFO_LOG_SIZE
            (glGetInfoLog INFO_LOG_SIZE (shader_info_log e (glCreateShader_ret e ty))),
          Cerr (''ERROR::SHADER::'' @ (if ty = GL_VERTEX_SHADER then ''VERTEX'' else ''FRAGMENT'')
                @ ''::COMPILATION_FAILED'' @ [CHR 0x0A]
                @ c_str (glGetInfoLog INFO_LOG_SIZE (shader_info_log e (glCreateShader_ret e ty)))
                @ endl),
          GlDeleteShader (glCreateShader_ret e ty)], 0)"
    by (rule compileShader_fail)
next
  show "length (c_str (glGetInfoLog INFO_LOG_SIZE (shader_info_log e (glCreateShader_ret e ty)))) < 512"
    by (rule length_reported_log)
next
  assume q: "GlGetShaderiv h GL_COMPILE_STATUS 0 \<in> set (fst (main e fuel))"
  have "snd (main e fuel) = Some (- 1) \<and> \<not> list_ex is_link_call (fst (main e fuel))
        \<and> (\<forall>k n. n \<noteq> 0 \<longrightarrow> GlCreateShader k n \<in> set (fst (main e fuel))
              \<longrightarrow> GlDeleteShader n \<in> set (fst (main e fuel)))"
  proof (rule main_setup_cases [of e])
    fix w c
    assume "main_window e = (w, Inl c)" and ms: "main_setup e = (w, Inl c)"
    then have "list_all startup_call w"
      using window_calls [of e] by simp
    with q main_early [OF ms, of fuel] show ?thesis
      by (auto simp: list_all_iff dest: startup_call_neutral)
  next
    fix w s c
    assume "main_window e = (w, Inr ())" "main_sources e = (s, Inl c)"
      and ms: "main_setup e = (w @ s, Inl c)"
    then have "list_all startup_call (w @ s)"
      using window_calls [of e] sources_calls [of e] by simp
    with q main_early [OF ms, of fuel] show ?thesis
      by (auto simp: list_all_iff dest: startup_call_neutral)
  next
    fix w s a b sh c
    assume W: "main_window e = (w, Inr ())" and S: "main_sources e = (s, Inr (a, b))"
      and Sh: "main_shaders e a b = (sh, Inl c)" and ms: "main_setup e = (w @ s @ sh, Inl c)"
    have ws: "\<forall>x\<in>set (w @ s). startup_call x"
      using window_calls [of e] sources_calls [of e] W S by (auto simp: list_all_iff)
    have sc: "\<forall>x\<in>set sh. shader_call x"
      using shaders_calls [of e a b] Sh by (simp add: list_all_iff)
    have t: "main e fuel = (w @ s @ sh, Some (- 1))"
      using main_early [OF ms, of fuel] shaders_failed [OF Sh] by simp
    have "\<not> list_ex is_link_call (w @ s @ sh)"
      using ws sc by (auto simp: list_ex_iff dest: startup_call_neutral shader_call_neutral)
    moreover have "\<forall>k n. n \<noteq> 0 \<longrightarrow> GlCreateShader k n \<in> set (w @ s @ sh)
              \<longrightarrow> GlDeleteShader n \<in> set (w @ s @ sh)"
      using shaders_failed [OF Sh] ws startup_call_no_shader by auto
    ultimately show ?thesis
      unfolding t by simp
  next
    fix w s a b sh v f pr c
    assume W: "main_window e = (w, Inr ())" and S: "main_sources e = (s, Inr (a, b))"
      and Sh: "main_shaders e a b = (sh, Inr (v, f))" and P: "main_program e v f = (pr, Inl c)"
      and ms: "main_setup e = (w @ s @ sh @ pr, Inl c)"
    have ws: "\<forall>x\<in>set (w @ s). startup_call x"
      using window_calls [of e] sources_calls [of e] W S by (auto simp: list_all_iff)
    have pc: "\<forall>x\<in>set pr. program_call x"
      using program_calls [of e v f] P by (simp add: list_all_iff)
    have "GlGetShaderiv h GL_COMPILE_STATUS 0 \<notin> set sh"
      unfolding shaders_ok_events [OF Sh]
      using shaders_ok(5,6) [OF Sh] shaders_ok(1,2) [OF Sh] by auto
    with q main_early [OF ms, of fuel] ws pc show ?thesis
      by (auto dest: startup_call_neutral program_call_neutral)
  next
    fix w s a b sh v f pr p
    assume W: "main_window e = (w, Inr ())" and S: "main_sources e = (s, Inr (a, b))"
      and Sh: "main_shaders e a b = (sh, Inr (v, f))" and P: "main_program e v f = (pr, Inr p)"
      and ms: "main_setup e = (w @ s @ sh @ pr @ fst (main_vertices e),
                        Inr (p, glGenVertexArrays_ret e, glGenBuffers_ret e))"
    have ws: "\<forall>x\<in>set (w @ s). startup_call x"
      using window_calls [of e] sources_calls [of e] W S by (auto simp: list_all_iff)
    have pc: "\<forall>x\<in>set pr. program_call x"
      using program_calls [of e v f] P by (simp add: list_all_iff)
    have fc: "\<forall>x\<in>set (fst (render_loop e p (glGenVertexArrays_ret e) fuel 0 False)). frame_call x"
      using frame_call_render_loop [of e p "glGenVertexArrays_ret e" fuel 0 False]
      by (simp add: list_all_iff)
    have "GlGetShaderiv h GL_COMPILE_STATUS 0 \<notin> set sh"
      unfolding shaders_ok_events [OF Sh]
      using shaders_ok(5,6) [OF Sh] shaders_ok(1,2) [OF Sh] by auto
    with q main_loop [OF ms, of fuel] ws pc fc show ?thesis
      by (auto simp: vertices_events split: if_splits
          dest: startup_call_neutral program_call_neutral frame_call_quiet)
  qed
  then show "snd (main e fuel) = Some (- 1)"
    and "\<not> list_ex is_link_call (fst (main e fuel))"
    and "\<forall>k n. n \<noteq> 0 \<longrightarrow> GlCreateShader k n \<in> set (fst (main e fuel))
              \<longrightarrow> GlDeleteShader n \<in> set (fst (main e fuel))"
    by simp_all
qed

lemma fragment_error_run:
  "main fragment_error_env 4 =
     ([GlfwInit, GlfwWindowHint GLFW_CONTEXT_VERSION_MAJOR 3, GlfwWindowHint GLFW_CONTEXT_VERSION_MINOR 3,
       GlfwWindowHint GLFW_OPENGL_PROFILE GLFW_OPENGL_CORE_PROFILE,
       GlfwCreateWindow 800 600 ''LearnOpenGL'' True, GlfwMakeContextCurrent,
       GladLoadGLLoader True, GlViewport 0 0 800 600, GlfwSetFramebufferSizeCallback,
       GlCreateShader GL_VERTEX_SHADER 1, GlShaderSource 1 1 ''void main(){}'', GlCompileShader 1,
       GlGetShaderiv 1 GL_COMPILE_STATUS 1,
       GlCreateShader GL_FRAGMENT_SHADER 2, GlShaderSource 2 1 ''void main(){ }'', GlCompileShader 2,
       GlGetShaderiv 2 GL_COMPILE_STATUS 0,
       GlGetShaderInfoLog 2 512 (''0:1(1): error: syntax error'' @ [NUL]),
       Cerr (''ERROR::SHADER::FRAGMENT::COMPILATION_FAILED'' @ [CHR 0x0A]
             @ ''0:1(1): error: syntax error'' @ [CHR 0x0A]),
       GlDeleteShader 2, GlDeleteShader 1, GlfwTerminate], Some (- 1))"
  by code_simp

theorem failed_compile_aborts_setup_witness:
  "compile_status fragment_error_env (glCreateShader_ret fragment_error_env GL_FRAGMENT_SHADER) = 0
   \<and> snd (compileShader fragment_error_env GL_FRAGMENT_SHADER ''void main(){ }'') = 0
   \<and> GlGetShaderiv 2 GL_COMPILE_STATUS 0 \<in> set (fst (main fragment_error_env 4))
   \<and> snd (main fragment_error_env 4) = Some (- 1)
   \<and> \<not> list_ex is_link_call (fst (main fragment_error_env 4))
   \<and> GlDeleteShader 1 \<in> set (fst (main fragment_error_env 4))"
proof -
  have h1: "compile_status fragment_error_env (glCreateShader_ret fragment_error_env GL_FRAGMENT_SHADER) = 0"
    by (simp add: fragment_error_env_def sample_env_def GL_VERTEX_SHADER_def GL_FRAGMENT_SHADER_def)
  have h2: "GlGetShaderiv 2 GL_COMPILE_STATUS 0 \<in> set (fst (main fragment_error_env 4))"
    and h3: "GlCreateShader GL_VERTEX_SHADER 1 \<in> set (fst (main fragment_error_env 4))"
    by (simp_all add: fragment_error_run)
  from failed_compile_aborts_setup
      [of fragment_error_env GL_FRAGMENT_SHADER "''void main(){ }''" 2 4] h1 h2 h3
  show ?thesis by auto
qed

lemma startup_call_no_link_query: "startup_call x \<Longrightarrow> x \<noteq> GlGetProgramiv p q r"
  by (cases x) (simp_all add: startup_call_def)

lemma shader_call_no_link_query: "shader_call x \<Longrightarrow> x \<noteq> GlGetProgramiv p q r"
  by (cases x) (simp_all add: shader_call_def)

lemma frame_call_no_link_query: "frame_call x \<Longrightarrow> x \<noteq> GlGetProgramiv p q r"
  by (cases x) (simp_all add: frame_call_def)

lemma vertices_ledger:
  "ledger [Program p] (fst (main_vertices e)) =
     Some ((if glGenBuffers_ret e = 0 then [] else [Buffer (glGenBuffers_ret e)])
           @ (if glGenVertexArrays_ret e = 0 then [] else [VertexArray (glGenVertexArrays_ret e)])
           @ [Program p])"
  by (simp add: vertices_events creates_def deletes_def named_def)

text \<open>
  C3. A run in which the link-status query answered false: \<^verbatim>\<open>main\<close> asks for the program
  log with the size of the 512-byte buffer, writes it to standard error, deletes the two
  shader objects and the program object, terminates GLFW and returns \<open>-1\<close>; nothing is
  drawn. A run in which the query answered true for a program the driver made: \<^verbatim>\<open>main\<close>
  deletes the two shader objects right after the query, and where the render loop is
  entered the live objects hold that one program and no shader.
\<close>

theorem link_outcomes:
  "(GlGetProgramiv p GL_LINK_STATUS 0 \<in> set (fst (main e fuel)) \<longrightarrow>
      snd (main e fuel) = Some (- 1)
      \<and> \<not> list_ex is_draw (fst (main e fuel))
      \<and> (\<exists>pre v f.
            fst (main e fuel) =
              pre @ [GlGetProgramiv p GL_LINK_STATUS 0,
                     GlGetProgramInfoLog p INFO_LOG_SIZE (glGetInfoLog INFO_LOG_SIZE (program_info_log e p)),
                     Cerr (''ERROR::SHADER::PROGRAM::LINKING_FAILED'' @ [CHR 0x0A]
                           @ c_str (glGetInfoLog INFO_LOG_SIZE (program_info_log e p)) @ endl),
                     GlDeleteShader v, GlDeleteShader f, GlDeleteProgram p, GlfwTerminate]
            \<and> created pre = Shader v # Shader f # (if p = 0 then [] else [Program p])))
   \<and> (GlGetProgramiv p GL_LINK_STATUS st \<in> set (fst (main e 0)) \<and> st \<noteq> 0 \<and> p \<noteq> 0
        \<and> glCreateShader_ret e GL_VERTEX_SHADER \<noteq> glCreateShader_ret e GL_FRAGMENT_SHADER \<longrightarrow>
      snd (main e 0) = None
      \<and> (\<exists>pre v f.
            fst (main e 0) =
              pre @ [GlGetProgramiv p GL_LINK_STATUS st, GlDeleteShader v, GlDeleteShader f]
                  @ fst (main_vertices e)
            \<and> created pre = [Shader v, Shader f, Program p])
      \<and> (\<exists>live. ledger [] (fst (main e 0)) = Some live
            \<and> filter is_program live = [Program p] \<and> filter is_shader live = []))
   \<and> length (c_str (glGetInfoLog INFO_LOG_SIZE (program_info_log e p))) < 512"
proof -
  have "(GlGetProgramiv p GL_LINK_STATUS 0 \<in> set (fst (main e fuel)) \<longrightarrow>
      snd (main e fuel) = Some (- 1)
      \<and> \<not> list_ex is_draw (fst (main e fuel))
      \<and> (\<exists>pre v f.
            fst (main e fuel) =
              pre @ [GlGetProgramiv p GL_LINK_STATUS 0,
                     GlGetProgramInfoLog p INFO_LOG_SIZE (glGetInfoLog INFO_LOG_SIZE (program_info_log e p)),
                     Cerr (''ERROR::SHADER::PROGRAM::LINKING_FAILED'' @ [CHR 0x0A]
                           @ c_str (glGetInfoLog INFO_LOG_SIZE (program_info_log e p)) @ endl),
                     GlDeleteShader v, GlDeleteShader f, GlDeleteProgram p, GlfwTerminate]
            \<and> created pre = Shader v # Shader f # (if p = 0 then [] else [Program p])))
   \<and> (GlGetProgramiv p GL_LINK_STATUS st \<in> set (fst (main e 0)) \<and> st \<noteq> 0 \<and> p \<noteq> 0
        \<and> glCreateShader_ret e GL_VERTEX_SHADER \<noteq> glCreateShader_ret e GL_FRAGMENT_SHADER \<longrightarrow>
      snd (main e 0) = None
      \<and> (\<exists>pre v f.
            fst (main e 0) =
              pre @ [GlGetProgramiv p GL_LINK_STATUS st, GlDeleteShader v, GlDeleteShader f]
                  @ fst (main_vertices e)
            \<and> created pre = [Shader v, Shader f, Program p])
      \<and> (\<exists>live. ledger [] (fst (main e 0)) = Some live
            \<and> filter is_program live = [Program p] \<and> filter is_shader live = []))"
  proof (rule main_setup_cases [of e])
    fix w c
    assume "main_window e = (w, Inl c)" and ms: "main_setup e = (w, Inl c)"
    then have "\<forall>x\<in>set w. startup_call x"
      using window_calls [of e] by (simp add: list_all_iff)
    then have "\<And>r n. GlGetProgramiv p GL_LINK_STATUS r \<notin> set (fst (main e n))"
      using main_early [OF ms] by (auto dest: startup_call_no_link_query)
    then show ?thesis by simp
  next
    fix w s c
    assume "main_window e = (w, Inr ())" "main_sources e = (s, Inl c)"
      and ms: "main_setup e = (w @ s, Inl c)"
    then have "\<forall>x\<in>set (w @ s). startup_call x"
      using window_calls [of e] sources_calls [of e] by (auto simp: list_all_iff)
    then have "\<And>r n. GlGetProgramiv p GL_LINK_STATUS r \<notin> set (fst (main e n))"
      using main_early [OF ms] by (auto dest: startup_call_no_link_query)
    then show ?thesis by simp
  next
    fix w s a b sh c
    assume W: "main_window e = (w, Inr ())" and S: "main_sources e = (s, Inr (a, b))"
      and Sh: "main_shaders e a b = (sh, Inl c)" and ms: "main_setup e = (w @ s @ sh, Inl c)"
    have ws: "\<forall>x\<in>set (w @ s). startup_call x"
      using window_calls [of e] sources_calls [of e] W S by (auto simp: list_all_iff)
    have sc: "\<forall>x\<in>set sh. shader_call x"
      using shaders_calls [of e a b] Sh by (simp add: list_all_iff)
    have "\<And>r n. GlGetProgramiv p GL_LINK_STATUS r \<notin> set (fst (main e n))"
      using main_early [OF ms] ws sc
      by (auto dest: startup_call_no_link_query shader_call_no_link_query)
    then show ?thesis by simp
  next
    fix w s a b sh v f pr c
    assume W: "main_window e = (w, Inr ())" and S: "main_sources e = (s, Inr (a, b))"
      and Sh: "main_shaders e a b = (sh, Inr (v, f))" and P: "main_program e v f = (pr, Inl c)"
      and ms: "main_setup e = (w @ s @ sh @ pr, Inl c)"
    let ?p = "glCreateProgram_ret e"
    have ws: "\<forall>x\<in>set (w @ s). startup_call x"
      using window_calls [of e] sources_calls [of e] W S by (auto simp: list_all_iff)
    have sc: "\<forall>x\<in>set sh. shader_call x"
      using shaders_calls [of e a b] Sh by (simp add: list_all_iff)
    have link: "link_status e ?p = 0"
      using P program_result [of e v f] by (simp split: if_splits)
    have c: "c = - 1" and pr: "pr = fst (main_program e v f)"
      using P program_fail [OF link, of v f] by simp_all
    have run: "\<And>n. main e n = (w @ s @ sh @ pr, Some (- 1))"
      using main_early [OF ms] c by simp
    have nodraw: "\<not> list_ex is_draw (w @ s @ sh @ pr)"
      using ws sc program_calls [of e v f] pr
      by (auto simp: list_ex_iff list_all_iff
          dest: startup_call_neutral shader_call_neutral program_call_neutral)
    have cr: "created ((w @ s @ sh) @ [GlCreateProgram ?p, GlAttachShader ?p v, GlAttachShader ?p f,
                GlLinkProgram ?p]) = Shader v # Shader f # (if ?p = 0 then [] else [Program ?p])"
      using startup_ledger(2) [of w] startup_ledger(2) [of s] ws shaders_deleted_ok [OF Sh]
      by (simp add: created_append list_all_iff creates_def named_def)
    have shape: "w @ s @ sh @ pr =
        ((w @ s @ sh) @ [GlCreateProgram ?p, GlAttachShader ?p v, GlAttachShader ?p f, GlLinkProgram ?p])
        @ [GlGetProgramiv ?p GL_LINK_STATUS 0,
           GlGetProgramInfoLog ?p INFO_LOG_SIZE (glGetInfoLog INFO_LOG_SIZE (program_info_log e ?p)),
           Cerr (''ERROR::SHADER::PROGRAM::LINKING_FAILED'' @ [CHR 0x0A]
                 @ c_str (glGetInfoLog INFO_LOG_SIZE (program_info_log e ?p)) @ endl),
           GlDeleteShader v, GlDeleteShader f, GlDeleteProgram ?p, GlfwTerminate]"
      unfolding pr program_fail [OF link] by simp
    have only: "\<And>q r. GlGetProgramiv q GL_LINK_STATUS r \<in> set (w @ s @ sh @ pr) \<Longrightarrow> q = ?p \<and> r = 0"
      unfolding pr program_fail [OF link] using ws sc
      by (auto dest: startup_call_no_link_query shader_call_no_link_query)
    show ?thesis
    proof (intro conjI impI)
      assume "GlGetProgramiv p GL_LINK_STATUS 0 \<in> set (fst (main e fuel))"
      then have p: "p = ?p" using only [of p 0] run by simp
      show "snd (main e fuel) = Some (- 1)" by (simp add: run)
      show "\<not> list_ex is_draw (fst (main e fuel))" using nodraw by (simp add: run)
      show "\<exists>pre v f.
              fst (main e fuel) =
                pre @ [GlGetProgramiv p GL_LINK_STATUS 0,
                       GlGetProgramInfoLog p INFO_LOG_SIZE (glGetInfoLog INFO_LOG_SIZE (program_info_log e p)),
                       Cerr (''ERROR::SHADER::PROGRAM::LINKING_FAILED'' @ [CHR 0x0A]
                             @ c_str (glGetInfoLog INFO_LOG_SIZE (program_info_log e p)) @ endl),
                       GlDeleteShader v, GlDeleteShader f, GlDeleteProgram p, GlfwTerminate]
              \<and> created pre = Shader v # Shader f # (if p = 0 then [] else [Program p])"
        unfolding p run fst_conv using shape cr by blast
    next
      assume "GlGetProgramiv p GL_LINK_STATUS st \<in> set (fst (main e 0)) \<and> st \<noteq> 0 \<and> p \<noteq> 0
          \<and> glCreateShader_ret e GL_VERTEX_SHADER \<noteq> glCreateShader_ret e GL_FRAGMENT_SHADER"
      then have False using only [of p st] run by simp
      then show "snd (main e 0) = None"
        and "\<exists>pre v f.
              fst (main e 0) =
                pre @ [GlGetProgramiv p GL_LINK_STATUS st, GlDeleteShader v, GlDeleteShader f]
                    @ fst (main_vertices e)
              \<and> created pre = [Shader v, Shader f, Program p]"
        and "\<exists>live. ledger [] (fst (main e 0)) = Some live
              \<and> filter is_program live = [Program p] \<and> filter is_shader live = []"
        by simp_all
    qed
  next
    fix w s a b sh v f pr p'
    assume W: "main_window e = (w, Inr ())" and S: "main_sources e = (s, Inr (a, b))"
      and Sh: "main_shaders e a b = (sh, Inr (v, f))" and P: "main_program e v f = (pr, Inr p')"
      and ms: "main_setup e = (w @ s @ sh @ pr @ fst (main_vertices e),
                          Inr (p', glGenVertexArrays_ret e, glGenBuffers_ret e))"
    let ?p = "glCreateProgram_ret e" and ?vao = "glGenVertexArrays_ret e" and ?vbo = "glGenBuffers_ret e"
    have ws: "\<forall>x\<in>set (w @ s). startup_call x"
      using window_calls [of e] sources_calls [of e] W S by (auto simp: list_all_iff)
    have sc: "\<forall>x\<in>set sh. shader_call x"
      using shaders_calls [of e a b] Sh by (simp add: list_all_iff)
    have link: "link_status e ?p \<noteq> 0" and p': "p' = ?p"
      using P program_result [of e v f] by (simp_all split: if_splits)
    have pr: "pr = fst (main_program e v f)"
      using P by simp
    have fc: "\<And>n q r. GlGetProgramiv q GL_LINK_STATUS r \<notin> set (fst (render_loop e p' ?vao n 0 False))"
      using frame_call_render_loop [of e p' ?vao _ 0 False]
      by (auto simp: list_all_iff dest: frame_call_no_link_query)
    have only: "\<And>q r n. GlGetProgramiv q GL_LINK_STATUS r \<in> set (fst (main e n))
        \<Longrightarrow> q = ?p \<and> r = link_status e ?p"
      unfolding main_loop [OF ms] pr program_ok [OF link] vertices_events using ws sc fc
      by (auto split: if_splits
          dest: startup_call_no_link_query shader_call_no_link_query)
    have entry: "main e 0 = (w @ s @ sh @ pr @ fst (main_vertices e), None)"
      using main_loop [OF ms, of 0] by simp
    show ?thesis
    proof (intro conjI impI)
      assume "GlGetProgramiv p GL_LINK_STATUS 0 \<in> set (fst (main e fuel))"
      then have False using only [of p 0 fuel] link by simp
      then show "snd (main e fuel) = Some (- 1)"
        and "\<not> list_ex is_draw (fst (main e fuel))"
        and "\<exists>pre v f.
              fst (main e fuel) =
                pre @ [GlGetProgramiv p GL_LINK_STATUS 0,
                       GlGetProgramInfoLog p INFO_LOG_SIZE (glGetInfoLog INFO_LOG_SIZE (program_info_log e p)),
                       Cerr (''ERROR::SHADER::PROGRAM::LINKING_FAILED'' @ [CHR 0x0A]
                             @ c_str (glGetInfoLog INFO_LOG_SIZE (program_info_log e p)) @ endl),
                       GlDeleteShader v, GlDeleteShader f, GlDeleteProgram p, GlfwTerminate]
              \<and> created pre = Shader v # Shader f # (if p = 0 then [] else [Program p])"
        by simp_all
    next
      assume h: "GlGetProgramiv p GL_LINK_STATUS st \<in> set (fst (main e 0)) \<and> st \<noteq> 0 \<and> p \<noteq> 0
          \<and> glCreateShader_ret e GL_VERTEX_SHADER \<noteq> glCreateShader_ret e GL_FRAGMENT_SHADER"
      then have p: "p = ?p" and st: "st = link_status e ?p" and p0: "?p \<noteq> 0"
        and fresh: "glCreateShader_ret e GL_VERTEX_SHADER \<noteq> glCreateShader_ret e GL_FRAGMENT_SHADER"
        using only [of p st 0] by auto
      have v: "v \<noteq> 0" and f: "f \<noteq> 0" and vf: "v \<noteq> f"
        using shaders_ok(1-4) [OF Sh] fresh by simp_all
      show "snd (main e 0) = None" by (simp add: entry)
      have cr: "created ((w @ s @ sh) @ [GlCreateProgram ?p, GlAttachShader ?p v, GlAttachShader ?p f,
                GlLinkProgram ?p]) = [Shader v, Shader f, Program ?p]"
        using startup_ledger(2) [of w] startup_ledger(2) [of s] ws shaders_deleted_ok [OF Sh] p0
        by (simp add: created_append list_all_iff creates_def named_def)
      have shape: "w @ s @ sh @ pr @ fst (main_vertices e) =
          ((w @ s @ sh) @ [GlCreateProgram ?p, GlAttachShader ?p v, GlAttachShader ?p f, GlLinkProgram ?p])
          @ [GlGetProgramiv ?p GL_LINK_STATUS (link_status e ?p), GlDeleteShader v, GlDeleteShader f]
          @ fst (main_vertices e)"
        unfolding pr program_ok [OF link] by simp
      show "\<exists>pre v f.
              fst (main e 0) =
                pre @ [GlGetProgramiv p GL_LINK_STATUS st, GlDeleteShader v, GlDeleteShader f]
                    @ fst (main_vertices e)
              \<and> created pre = [Shader v, Shader f, Program p]"
        unfolding p st entry fst_conv using shape cr by blast
      have lw: "\<And>l. ledger l w = Some l" and ls: "\<And>l. ledger l s = Some l"
        using ws by (simp_all add: startup_ledger(1) list_all_iff)
      have l1: "ledger [] sh = Some [Shader f, Shader v]"
        using shaders_ledger [OF fresh, of a b] Sh by simp
      have l2: "ledger [Shader f, Shader v] pr = Some [Program ?p]"
        using program_ledger [OF v f vf, of e] P p0 p' by simp
      have "ledger [] (fst (main e 0)) =
          Some ((if ?vbo = 0 then [] else [Buffer ?vbo]) @ (if ?vao = 0 then [] else [VertexArray ?vao])
                @ [Program ?p])"
        unfolding entry fst_conv
        by (simp only: ledger_append lw ls l1 l2 vertices_ledger option.case)
      then show "\<exists>live. ledger [] (fst (main e 0)) = Some live
              \<and> filter is_program live = [Program p] \<and> filter is_shader live = []"
        unfolding p by (simp add: is_program_def is_shader_def)
    qed
  qed
  then show ?thesis
    using length_reported_log [of "program_info_log e p"] by blast
qed

lemma link_error_query: "GlGetProgramiv 3 GL_LINK_STATUS 0 \<in> set (fst (main link_error_env 4))"
  by code_simp

lemma sample_link_query: "GlGetProgramiv 3 GL_LINK_STATUS 1 \<in> set (fst (main sample_env 0))"
  by code_simp

theorem link_outcomes_witness:
  "GlGetProgramiv 3 GL_LINK_STATUS 0 \<in> set (fst (main link_error_env 4))
   \<and> snd (main link_error_env 4) = Some (- 1)
   \<and> \<not> list_ex is_draw (fst (main link_error_env 4))
   \<and> GlGetProgramiv 3 GL_LINK_STATUS 1 \<in> set (fst (main sample_env 0))
   \<and> snd (main sample_env 0) = None
   \<and> (\<exists>live. ledger [] (fst (main sample_env 0)) = Some live
         \<and> filter is_program live = [Program 3] \<and> filter is_shader live = [])"
proof -
  have a: "snd (main link_error_env 4) = Some (- 1) \<and> \<not> list_ex is_draw (fst (main link_error_env 4))"
    using link_outcomes [of 3 link_error_env 4 1] link_error_query by blast
  have b: "snd (main sample_env 0) = None
     \<and> (\<exists>live. ledger [] (fst (main sample_env 0)) = Some live
         \<and> filter is_program live = [Program 3] \<and> filter is_shader live = [])"
    using link_outcomes [of 3 sample_env 0 1] sample_link_query sample_names by simp
  from a b link_error_query sample_link_query show ?thesis by simp
qed

section \<open>The render loop\<close>

lemma setup_no_draw: "\<forall>x\<in>set (fst (main_setup e)). close_check x = None \<and> \<not> is_draw x"
proof (rule main_setup_cases [of e])
  fix w c
  assume "main_window e = (w, Inl c)" and ms: "main_setup e = (w, Inl c)"
  then show ?thesis
    using window_calls [of e] by (auto simp: list_all_iff dest: startup_call_neutral)
next
  fix w s c
  assume "main_window e = (w, Inr ())" "main_sources e = (s, Inl c)"
    and ms: "main_setup e = (w @ s, Inl c)"
  then show ?thesis
    using window_calls [of e] sources_calls [of e]
    by (auto simp: list_all_iff dest: startup_call_neutral)
next
  fix w s a b sh c
  assume "main_window e = (w, Inr ())" "main_sources e = (s, Inr (a, b))"
    "main_shaders e a b = (sh, Inl c)" and ms: "main_setup e = (w @ s @ sh, Inl c)"
  then show ?thesis
    using window_calls [of e] sources_calls [of e] shaders_calls [of e a b]
    by (auto simp: list_all_iff dest: startup_call_neutral shader_call_neutral)
next
  fix w s a b sh v f pr c
  assume "main_window e = (w, Inr ())" "main_sources e = (s, Inr (a, b))"
    "main_shaders e a b = (sh, Inr (v, f))" "main_program e v f = (pr, Inl c)"
    and ms: "main_setup e = (w @ s @ sh @ pr, Inl c)"
  then show ?thesis
    using window_calls [of e] sources_calls [of e] shaders_calls [of e a b] program_calls [of e v f]
    by (auto simp: list_all_iff dest: startup_call_neutral shader_call_neutral program_call_neutral)
next
  fix w s a b sh v f pr p
  assume "main_window e = (w, Inr ())" "main_sources e = (s, Inr (a, b))"
    "main_shaders e a b = (sh, Inr (v, f))" "main_program e v f = (pr, Inr p)"
    and ms: "main_setup e = (w @ s @ sh @ pr @ fst (main_vertices e),
                        Inr (p, glGenVertexArrays_ret e, glGenBuffers_ret e))"
  moreover have "\<forall>x\<in>set (fst (main_vertices e)). close_check x = None \<and> \<not> is_draw x"
    by (simp add: vertices_events close_check_def is_draw_def)
  ultimately show ?thesis
    using window_calls [of e] sources_calls [of e] shaders_calls [of e a b] program_calls [of e v f]
    by (auto simp: list_all_iff
        dest: startup_call_neutral shader_call_neutral program_call_neutral)
qed

lemma main_guarded: "draws_guarded False (fst (main e fuel)) \<and> quiet_after_close (fst (main e fuel))"
proof (cases "main_setup e")
  case (Pair s r)
  have s: "\<forall>x\<in>set s. close_check x = None \<and> \<not> is_draw x"
    using setup_no_draw [of e] Pair by simp
  then have s': "\<forall>x\<in>set s. close_check x \<noteq> Some True" by simp
  show ?thesis
  proof (cases r)
    case (Inl c)
    with Pair s s' show ?thesis
      by (simp add: main_early draws_guarded_no_draw quiet_no_check)
  next
    case (Inr pvb)
    obtain p v b where pvb: "pvb = (p, v, b)" by (cases pvb)
    let ?cleanup = "[GlDeleteVertexArrays 1 v, GlDeleteBuffers 1 b, GlDeleteProgram p, GlfwTerminate]"
    have c: "\<forall>x\<in>set ?cleanup. close_check x = None \<and> \<not> is_draw x"
      by (simp add: close_check_def is_draw_def)
    have c': "\<not> list_ex is_draw ?cleanup" "\<forall>x\<in>set ?cleanup. close_check x \<noteq> Some True"
      by (simp_all add: close_check_def is_draw_def)
    have "draws_guarded False (s @ fst (render_loop e p v fuel 0 False) @ ?cleanup)"
      "quiet_after_close (s @ fst (render_loop e p v fuel 0 False) @ ?cleanup)"
      using render_loop_guarded [OF c, of False e p v fuel 0 False]
        render_loop_quiet [OF c', of e p v fuel 0 False]
      by (simp_all only: draws_guarded_skip [OF s] quiet_after_close_skip [OF s'])
    moreover have "draws_guarded False (s @ fst (render_loop e p v fuel 0 False))"
      "quiet_after_close (s @ fst (render_loop e p v fuel 0 False))"
      using render_loop_guarded [of "[]" False e p v fuel 0 False]
        render_loop_quiet [of "[]" e p v fuel 0 False]
      by (simp_all add: draws_guarded_skip [OF s] quiet_after_close_skip [OF s'])
    ultimately show ?thesis
      using main_loop [of e s p v b fuel] Pair Inr pvb by simp
  qed
qed

text \<open>
  C5. With the escape key down in a frame, \<^verbatim>\<open>processInput\<close> sets the window's close flag,
  the frame ends with the flag set, and the next evaluation of the loop condition leaves
  the loop. In every run of \<^verbatim>\<open>main\<close>, however long it is watched, each \<^verbatim>\<open>glDrawArrays\<close>
  call comes after an evaluation of the loop condition that saw the flag unset, with no
  later evaluation in between, and after an evaluation that saw the flag set there is no
  draw call at all.
\<close>

theorem escape_stops_drawing:
  "(glfwGetKey_ret e i GLFW_KEY_ESCAPE = GLFW_PRESS \<longrightarrow>
      processInput e i c = ([GlfwGetKey GLFW_KEY_ESCAPE GLFW_PRESS, GlfwSetWindowShouldClose True], True)
      \<and> snd (render_body e p v i c)
      \<and> render_loop e p v (Suc (Suc n)) i False =
          (GlfwWindowShouldClose False # fst (render_body e p v i False) @ [GlfwWindowShouldClose True],
           True))
   \<and> draws_guarded False (fst (main e fuel))
   \<and> quiet_after_close (fst (main e fuel))"
  by (simp add: main_guarded render_body_flag case_prod_beta) (simp add: processInput_def)

theorem escape_stops_drawing_witness:
  "glfwGetKey_ret sample_env 2 GLFW_KEY_ESCAPE = GLFW_PRESS
   \<and> snd (processInput sample_env 2 False)
   \<and> snd (render_loop sample_env 3 1 2 2 False)
   \<and> length (filter is_draw (fst (render_loop sample_env 3 1 2 2 False))) = 1
   \<and> draws_guarded False (fst (main sample_env 4))
   \<and> quiet_after_close (fst (main sample_env 4))
   \<and> length (filter is_draw (fst (main sample_env 4))) = 3"
proof -
  have h: "glfwGetKey_ret sample_env 2 GLFW_KEY_ESCAPE = GLFW_PRESS"
    by (simp add: sample_env_def)
  have d: "length (filter is_draw (fst (render_loop sample_env 3 1 2 2 False))) = 1"
    "length (filter is_draw (fst (main sample_env 4))) = 3"
    by code_simp+
  from escape_stops_drawing [of sample_env 2 False 3 1 0 4] h d
  show ?thesis by (simp add: numeral_2_eq_2)
qed

lemma render_body_draws:
  "filter is_draw (fst (render_body e p v i c)) = [GlDrawArrays GL_TRIANGLES 0 3]"
proof -
  have "filter is_draw (map (\<lambda>(w, h). GlViewport 0 0 w h) rs) = []" for rs
    by (induction rs) (auto simp: is_draw_def)
  then show ?thesis
    by (simp add: render_body_events processInput_events glfwPollEvents_events is_draw_def)
qed

text \<open>
  C6. Every iteration of the render loop makes these calls, in this order: clear colour
  (0.2, 0.3, 0.3, 1.0) and clear of the colour buffer; use of the shader program and
  binding of the vertex array; one \<^verbatim>\<open>glDrawArrays\<close> of a triangle from 3 vertices, the only
  draw call of the iteration; the key query of \<^verbatim>\<open>processInput\<close> (and its request to close,
  when escape is down); \<^verbatim>\<open>glfwPollEvents\<close> (with the viewport calls of the resize callback
  it runs); \<^verbatim>\<open>glfwSwapBuffers\<close>. The events of the loop are such iterations one after
  another, each behind an evaluation of the loop condition that saw the close flag unset,
  and so are the events of \<^verbatim>\<open>main\<close> between its setup and its cleanup.
\<close>

theorem render_iteration_order:
  "fst (render_body e p v i c) =
     [GlClearColor (1 / 5) (3 / 10) (3 / 10) 1, GlClear GL_COLOR_BUFFER_BIT,
      GlUseProgram p, GlBindVertexArray v,
      GlDrawArrays GL_TRIANGLES 0 3,
      GlfwGetKey GLFW_KEY_ESCAPE (glfwGetKey_ret e i GLFW_KEY_ESCAPE)]
     @ (if glfwGetKey_ret e i GLFW_KEY_ESCAPE = GLFW_PRESS then [GlfwSetWindowShouldClose True] else [])
     @ [GlfwPollEvents]
     @ map (\<lambda>(w, h). GlViewport 0 0 w h) (framebuffer_resizes e i)
     @ [GlfwSwapBuffers]
   \<and> filter is_draw (fst (render_body e p v i c)) = [GlDrawArrays GL_TRIANGLES 0 3]
   \<and> (\<exists>k\<le>fuel.
         fst (render_loop e p v fuel 0 False) =
           concat (map (\<lambda>j. GlfwWindowShouldClose False # fst (render_body e p v j False)) [0..<k])
           @ (if snd (render_loop e p v fuel 0 False) then [GlfwWindowShouldClose True] else []))
   \<and> (main_setup e = (s, Inr (p, v, b)) \<longrightarrow>
        (\<exists>k\<le>fuel.
           fst (main e fuel) =
             s @ concat (map (\<lambda>j. GlfwWindowShouldClose False # fst (render_body e p v j False)) [0..<k])
             @ (if snd (main e fuel) = Some 0
                then [GlfwWindowShouldClose True, GlDeleteVertexArrays 1 v, GlDeleteBuffers 1 b,
                      GlDeleteProgram p, GlfwTerminate]
                else [])))"
proof (intro conjI impI)
  show "fst (render_body e p v i c) =
     [GlClearColor (1 / 5) (3 / 10) (3 / 10) 1, GlClear GL_COLOR_BUFFER_BIT,
      GlUseProgram p, GlBindVertexArray v,
      GlDrawArrays GL_TRIANGLES 0 3,
      GlfwGetKey GLFW_KEY_ESCAPE (glfwGetKey_ret e i GLFW_KEY_ESCAPE)]
     @ (if glfwGetKey_ret e i GLFW_KEY_ESCAPE = GLFW_PRESS then [GlfwSetWindowShouldClose True] else [])
     @ [GlfwPollEvents]
     @ map (\<lambda>(w, h). GlViewport 0 0 w h) (framebuffer_resizes e i)
     @ [GlfwSwapBuffers]"
    by (simp add: render_body_events processInput_events glfwPollEvents_events)
  show "filter is_draw (fst (render_body e p v i c)) = [GlDrawArrays GL_TRIANGLES 0 3]"
    by (rule render_body_draws)
  obtain k where k: "k \<le> fuel"
    "fst (render_loop e p v fuel 0 False) =
       concat (map (\<lambda>j. GlfwWindowShouldClose False # fst (render_body e p v j False)) [0..<k])
       @ (if snd (render_loop e p v fuel 0 False) then [GlfwWindowShouldClose True] else [])"
    using render_loop_frames [of fuel e p v 0 False] by auto
  then show "\<exists>k\<le>fuel.
         fst (render_loop e p v fuel 0 False) =
           concat (map (\<lambda>j. GlfwWindowShouldClose False # fst (render_body e p v j False)) [0..<k])
           @ (if snd (render_loop e p v fuel 0 False) then [GlfwWindowShouldClose True] else [])"
    by blast
  assume ms: "main_setup e = (s, Inr (p, v, b))"
  have "fst (main e fuel) =
      s @ concat (map (\<lambda>j. GlfwWindowShouldClose False # fst (render_body e p v j False)) [0..<k])
        @ (if snd (main e fuel) = Some 0
           then [GlfwWindowShouldClose True, GlDeleteVertexArrays 1 v, GlDeleteBuffers 1 b,
                 GlDeleteProgram p, GlfwTerminate]
           else [])"
    unfolding main_loop [OF ms] using k(2) by simp
  with k(1) show "\<exists>k\<le>fuel.
           fst (main e fuel) =
             s @ concat (map (\<lambda>j. GlfwWindowShouldClose False # fst (render_body e p v j False)) [0..<k])
             @ (if snd (main e fuel) = Some 0
                then [GlfwWindowShouldClose True, GlDeleteVertexArrays 1 v, GlDeleteBuffers 1 b,
                      GlDeleteProgram p, GlfwTerminate]
                else [])"
    by blast
qed

lemma sample_setup_result: "snd (main_setup sample_env) = Inr (3, 1, 1)"
  by code_simp

theorem render_iteration_order_witness:
  "main_setup sample_env = (fst (main_setup sample_env), Inr (3, 1, 1))
   \<and> snd (main sample_env 4) = Some 0
   \<and> (\<exists>k\<le>4.
        fst (main sample_env 4) =
          fst (main_setup sample_env)
          @ concat (map (\<lambda>j. GlfwWindowShouldClose False # fst (render_body sample_env 3 1 j False)) [0..<k])
          @ [GlfwWindowShouldClose True, GlDeleteVertexArrays 1 1, GlDeleteBuffers 1 1,
             GlDeleteProgram 3, GlfwTerminate])"
proof -
  have h: "main_setup sample_env = (fst (main_setup sample_env), Inr (3, 1, 1))"
    using sample_setup_result by (simp add: prod_eq_iff)
  from render_iteration_order [of sample_env 3 1 0 False 4 "fst (main_setup sample_env)" 1] h sample_exit
  show ?thesis by simp
qed

section \<open>Error reports\<close>

lemma setup_reports: "list_all log_query_ok (fst (main_setup e))"
proof (rule main_setup_cases [of e])
  fix w c
  assume "main_window e = (w, Inl c)" and ms: "main_setup e = (w, Inl c)"
  then show ?thesis
    using window_reports [of e] by simp
next
  fix w s c
  assume "main_window e = (w, Inr ())" "main_sources e = (s, Inl c)"
    and ms: "main_setup e = (w @ s, Inl c)"
  then show ?thesis
    using window_reports [of e] sources_reports [of e] by simp
next
  fix w s a b sh c
  assume "main_window e = (w, Inr ())" "main_sources e = (s, Inr (a, b))"
    "main_shaders e a b = (sh, Inl c)" and ms: "main_setup e = (w @ s @ sh, Inl c)"
  then show ?thesis
    using window_reports [of e] sources_reports [of e] shaders_reports [of e a b] by simp
next
  fix w s a b sh v f pr c
  assume "main_window e = (w, Inr ())" "main_sources e = (s, Inr (a, b))"
    "main_shaders e a b = (sh, Inr (v, f))" "main_program e v f = (pr, Inl c)"
    and ms: "main_setup e = (w @ s @ sh @ pr, Inl c)"
  then show ?thesis
    using window_reports [of e] sources_reports [of e] shaders_reports [of e a b]
      program_reports [of e v f] by simp
next
  fix w s a b sh v f pr p
  assume "main_window e = (w, Inr ())" "main_sources e = (s, Inr (a, b))"
    "main_shaders e a b = (sh, Inr (v, f))" "main_program e v f = (pr, Inr p)"
    and ms: "main_setup e = (w @ s @ sh @ pr @ fst (main_vertices e),
                        Inr (p, glGenVertexArrays_ret e, glGenBuffers_ret e))"
  moreover have "list_all log_query_ok (fst (main_vertices e))"
    by (simp add: vertices_events log_query_ok_def)
  ultimately show ?thesis
    using window_reports [of e] sources_reports [of e] shaders_reports [of e a b]
      program_reports [of e v f] by simp
qed

lemma frames_reports: "list_all log_query_ok (fst (render_loop e p v n i c))"
  using frame_call_render_loop [of e p v n i c]
  by (auto simp: list_all_iff dest: frame_call_neutral)

lemma main_reports: "list_all log_query_ok (fst (main e fuel))"
proof (cases "main_setup e")
  case (Pair s r)
  have s: "list_all log_query_ok s"
    using setup_reports [of e] Pair by simp
  show ?thesis
  proof (cases r)
    case (Inl c)
    with Pair s show ?thesis by (simp add: main_early)
  next
    case (Inr pvb)
    obtain p v b where pvb: "pvb = (p, v, b)" by (cases pvb)
    have "list_all log_query_ok [GlDeleteVertexArrays 1 v, GlDeleteBuffers 1 b, GlDeleteProgram p, GlfwTerminate]"
      by (simp add: log_query_ok_def)
    with s frames_reports [of e p v fuel 0 False] show ?thesis
      using main_loop [of e s p v b fuel] Pair Inr pvb by simp
  qed
qed

text \<open>
  C7. Every line that a run of \<^verbatim>\<open>main\<close> writes goes to standard error and is one of the two
  fixed messages of the window stage, or starts with the tag of the file, compile or link
  failure. Every query for a driver log passes \<^verbatim>\<open>INFO_LOG_SIZE\<close>, which is 512 and the size
  of the buffer, and the driver's answer fits the buffer, terminator included; the log
  that is then written after a compile or link tag has fewer than 512 characters, however
  long the driver's own log is.
\<close>

theorem error_reports_bounded:
  "list_all log_query_ok (fst (main e fuel))
   \<and> list_all report_ok (stderr_of (fst (main e fuel)))
   \<and> INFO_LOG_SIZE = 512
   \<and> int (length (glGetInfoLog INFO_LOG_SIZE msg)) \<le> INFO_LOG_SIZE
   \<and> length (c_str (glGetInfoLog INFO_LOG_SIZE msg)) < nat INFO_LOG_SIZE"
proof -
  have "list_all log_query_ok t \<Longrightarrow> list_all report_ok (stderr_of t)" for t
    by (induction t) (auto simp: log_query_ok_def split: event.splits)
  then show ?thesis
    using main_reports [of e fuel] length_info_log [of msg] length_reported_log [of msg]
    by (simp add: INFO_LOG_SIZE_def)
qed

theorem error_reports_bounded_witness:
  "stderr_of (fst (main link_error_env 4)) =
     [''ERROR::SHADER::PROGRAM::LINKING_FAILED'' @ [CHR 0x0A] @ ''error: linking failed'' @ [CHR 0x0A]]
   \<and> list_all report_ok (stderr_of (fst (main link_error_env 4)))
   \<and> length (c_str (glGetInfoLog INFO_LOG_SIZE (replicate 600 (CHR ''x'')))) = 511"
proof -
  have s: "stderr_of (fst (main link_error_env 4)) =
     [''ERROR::SHADER::PROGRAM::LINKING_FAILED'' @ [CHR 0x0A] @ ''error: linking failed'' @ [CHR 0x0A]]"
    by code_simp
  have l: "length (c_str (glGetInfoLog INFO_LOG_SIZE (replicate 600 (CHR ''x'')))) = 511"
  proof -
    have "c_str (replicate 600 (CHR ''x'')) = replicate 600 (CHR ''x'')"
      by (simp add: c_str_def NUL_def takeWhile_replicate)
    then show ?thesis
      by (simp add: c_str_glGetInfoLog INFO_LOG_SIZE_def)
  qed
  from error_reports_bounded [of link_error_env 4 "replicate 600 (CHR ''x'')"] s l
  show ?thesis by simp
qed

text \<open>
  C10. In the report of a failed compile the kind is written as \<^verbatim>\<open>VERTEX\<close> when the type
  argument is \<^verbatim>\<open>GL_VERTEX_SHADER\<close> and as \<^verbatim>\<open>FRAGMENT\<close> for every other value of the type
  argument; a geometry shader that fails to compile is reported as \<^verbatim>\<open>FRAGMENT\<close>.
\<close>

theorem shader_kind_tag:
  "(compile_status e (glCreateShader_ret e ty) = 0 \<longrightarrow>
      stderr_of (fst (compileShader e ty src)) =
        [(if ty = GL_VERTEX_SHADER then ''ERROR::SHADER::VERTEX::COMPILATION_FAILED''
          else ''ERROR::SHADER::FRAGMENT::COMPILATION_FAILED'')
         @ [CHR 0x0A]
         @ c_str (glGetInfoLog INFO_LOG_SIZE (shader_info_log e (glCreateShader_ret e ty)))
         @ endl])
   \<and> (compile_status e (glCreateShader_ret e GL_GEOMETRY_SHADER) = 0 \<longrightarrow>
        stderr_of (fst (compileShader e GL_GEOMETRY_SHADER src)) =
          [''ERROR::SHADER::FRAGMENT::COMPILATION_FAILED'' @ [CHR 0x0A]
           @ c_str (glGetInfoLog INFO_LOG_SIZE (shader_info_log e (glCreateShader_ret e GL_GEOMETRY_SHADER)))
           @ endl])"
  by (simp add: compileShader_fail GL_GEOMETRY_SHADER_def GL_VERTEX_SHADER_def)

theorem shader_kind_tag_witness:
  "compile_status fragment_error_env (glCreateShader_ret fragment_error_env GL_GEOMETRY_SHADER) = 0
   \<and> stderr_of (fst (compileShader fragment_error_env GL_GEOMETRY_SHADER ''void main(){}'')) =
       [''ERROR::SHADER::FRAGMENT::COMPILATION_FAILED'' @ [CHR 0x0A]
        @ ''0:1(1): error: syntax error'' @ [CHR 0x0A]]"
proof -
  have h: "compile_status fragment_error_env (glCreateShader_ret fragment_error_env GL_GEOMETRY_SHADER) = 0"
    by (simp add: fragment_error_env_def sample_env_def GL_GEOMETRY_SHADER_def GL_VERTEX_SHADER_def)
  have l: "c_str (glGetInfoLog INFO_LOG_SIZE (shader_info_log fragment_error_env
              (glCreateShader_ret fragment_error_env GL_GEOMETRY_SHADER))) = ''0:1(1): error: syntax error''"
    by code_simp
  have "stderr_of (fst (compileShader fragment_error_env GL_GEOMETRY_SHADER ''void main(){}'')) =
          [''ERROR::SHADER::FRAGMENT::COMPILATION_FAILED'' @ [CHR 0x0A]
           @ c_str (glGetInfoLog INFO_LOG_SIZE (shader_info_log fragment_error_env
               (glCreateShader_ret fragment_error_env GL_GEOMETRY_SHADER)))
           @ endl]"
    using shader_kind_tag [of fragment_error_env GL_GEOMETRY_SHADER "''void main(){}''"] h by blast
  with h show ?thesis unfolding l by (simp add: endl_def)
qed

section \<open>The vertex buffer\<close>

lemma startup_buffers:
  assumes "list_all startup_call t"
  shows "\<forall>x\<in>set t. \<not> is_buffer_data x \<and> (\<forall>s. buffer_step s x = s)"
proof
  fix x assume "x \<in> set t"
  with assms have "startup_call x" by (simp add: list_all_iff)
  then show "\<not> is_buffer_data x \<and> (\<forall>s. buffer_step s x = s)"
    by (cases x) (simp_all add: startup_call_def is_buffer_data_def buffer_step_def)
qed

lemma shader_buffers:
  assumes "list_all shader_call t"
  shows "\<forall>x\<in>set t. \<not> is_buffer_data x \<and> (\<forall>s. buffer_step s x = s)"
proof
  fix x assume "x \<in> set t"
  with assms have "shader_call x" by (simp add: list_all_iff)
  then show "\<not> is_buffer_data x \<and> (\<forall>s. buffer_step s x = s)"
    by (cases x) (simp_all add: shader_call_def is_buffer_data_def buffer_step_def)
qed

lemma program_buffers:
  assumes "list_all program_call t"
  shows "\<forall>x\<in>set t. \<not> is_buffer_data x \<and> (\<forall>s. buffer_step s x = s)"
proof
  fix x assume "x \<in> set t"
  with assms have "program_call x" by (simp add: list_all_iff)
  then show "\<not> is_buffer_data x \<and> (\<forall>s. buffer_step s x = s)"
    by (cases x) (simp_all add: program_call_def is_buffer_data_def buffer_step_def)
qed

lemma frame_buffers:
  assumes "list_all frame_call t"
  shows "\<forall>x\<in>set t. \<not> is_buffer_data x \<and> (\<forall>k. x \<noteq> GlDeleteBuffers k b)"
proof
  fix x assume "x \<in> set t"
  with assms have "frame_call x" by (simp add: list_all_iff)
  then show "\<not> is_buffer_data x \<and> (\<forall>k. x \<noteq> GlDeleteBuffers k b)"
    by (cases x) (simp_all add: frame_call_def is_buffer_data_def)
qed

lemma foldl_buffer_neutral:
  "\<forall>x\<in>set t. \<forall>s. buffer_step s x = s \<Longrightarrow> foldl buffer_step s t = s"
  by (induction t arbitrary: s) (simp_all del: split_paired_All)

lemma buffer_step_keeps:
  "\<not> is_buffer_data x \<Longrightarrow> \<forall>n. x \<noteq> GlDeleteBuffers n b \<Longrightarrow> snd (buffer_step s x) b = snd s b"
  by (cases x) (simp_all add: buffer_step_def is_buffer_data_def)

lemma foldl_buffer_keeps:
  "\<forall>x\<in>set t. \<not> is_buffer_data x \<and> (\<forall>n. x \<noteq> GlDeleteBuffers n b) \<Longrightarrow>
     snd (foldl buffer_step s t) b = snd s b"
  by (induction t arbitrary: s) (simp_all add: buffer_step_keeps)

lemma prefix_past:
  assumes "prefix q (a @ b)" and "x \<in> set q" and "x \<notin> set a"
  shows "\<exists>r. q = a @ r \<and> prefix r b"
proof -
  from assms(1) have "prefix q a \<or> (\<exists>r. q = a @ r \<and> prefix r b)"
    by (simp add: prefix_append)
  moreover have "\<not> prefix q a"
    using assms(2,3) by (auto dest: set_mono_prefix)
  ultimately show ?thesis by blast
qed

lemma setup_failed_no_upload:
  "main_setup e = (s, Inl c) \<Longrightarrow> \<forall>x\<in>set s. \<not> is_buffer_data x"
proof (rule main_setup_cases [of e])
  fix w c'
  assume "main_setup e = (s, Inl c)" "main_window e = (w, Inl c')" "main_setup e = (w, Inl c')"
  then show ?thesis
    using startup_buffers [OF window_calls [of e]] by auto
next
  fix w s' c'
  assume "main_setup e = (s, Inl c)" "main_window e = (w, Inr ())" "main_sources e = (s', Inl c')"
    "main_setup e = (w @ s', Inl c')"
  then show ?thesis
    using startup_buffers [OF window_calls [of e]] startup_buffers [OF sources_calls [of e]] by auto
next
  fix w s' a b sh c'
  assume "main_setup e = (s, Inl c)" "main_window e = (w, Inr ())" "main_sources e = (s', Inr (a, b))"
    "main_shaders e a b = (sh, Inl c')" "main_setup e = (w @ s' @ sh, Inl c')"
  then show ?thesis
    using startup_buffers [OF window_calls [of e]] startup_buffers [OF sources_calls [of e]]
      shader_buffers [OF shaders_calls [of e a b]] by auto
next
  fix w s' a b sh v f pr c'
  assume "main_setup e = (s, Inl c)" "main_window e = (w, Inr ())" "main_sources e = (s', Inr (a, b))"
    "main_shaders e a b = (sh, Inr (v, f))" "main_program e v f = (pr, Inl c')"
    "main_setup e = (w @ s' @ sh @ pr, Inl c')"
  then show ?thesis
    using startup_buffers [OF window_calls [of e]] startup_buffers [OF sources_calls [of e]]
      shader_buffers [OF shaders_calls [of e a b]] program_buffers [OF program_calls [of e v f]] by auto
next
  fix w s' a b sh v f pr p
  assume "main_setup e = (s, Inl c)"
    "main_setup e = (w @ s' @ sh @ pr @ fst (main_vertices e),
                        Inr (p, glGenVertexArrays_ret e, glGenBuffers_ret e))"
  then show ?thesis by simp
qed

lemma setup_ready_shape:
  assumes "main_setup e = (s, Inr (p, v, b))"
  shows "\<exists>pre. s = pre @ fst (main_vertices e)
    \<and> (\<forall>x\<in>set pre. \<not> is_buffer_data x \<and> (\<forall>st. buffer_step st x = st))
    \<and> v = glGenVertexArrays_ret e \<and> b = glGenBuffers_ret e"
proof (rule main_setup_cases [of e])
  fix w s' a' b' sh v' f' pr p'
  assume "main_window e = (w, Inr ())" "main_sources e = (s', Inr (a', b'))"
    "main_shaders e a' b' = (sh, Inr (v', f'))" "main_program e v' f' = (pr, Inr p')"
    and ms: "main_setup e = (w @ s' @ sh @ pr @ fst (main_vertices e),
                        Inr (p', glGenVertexArrays_ret e, glGenBuffers_ret e))"
  then have "\<forall>x\<in>set (w @ s' @ sh @ pr). \<not> is_buffer_data x \<and> (\<forall>st. buffer_step st x = st)"
    using startup_buffers [OF window_calls [of e]] startup_buffers [OF sources_calls [of e]]
      shader_buffers [OF shaders_calls [of e a' b']] program_buffers [OF program_calls [of e v' f']]
    by (auto simp del: split_paired_All)
  moreover have "s = (w @ s' @ sh @ pr) @ fst (main_vertices e)"
    "v = glGenVertexArrays_ret e" "b = glGenBuffers_ret e"
    using ms assms by simp_all
  ultimately show ?thesis by blast
qed (use assms in simp_all)

lemma frames_buffers:
  "\<forall>x\<in>set (fst (render_loop e p v n i c)). \<not> is_buffer_data x \<and> (\<forall>k. x \<noteq> GlDeleteBuffers k b)"
  by (rule frame_buffers [OF frame_call_render_loop])

lemma length_vertices: "length vertices = 9"
  by (simp add: vertices_def)

lemma uploads_of_main:
  "filter is_buffer_data (fst (main e fuel)) =
     (case snd (main_setup e) of
        Inl c \<Rightarrow> []
      | Inr r \<Rightarrow> [GlBufferData GL_ARRAY_BUFFER (9 * sizeof_float) vertices GL_STATIC_DRAW])"
proof (cases "main_setup e")
  case (Pair s r)
  show ?thesis
  proof (cases r)
    case (Inl c)
    with Pair have "filter is_buffer_data s = []"
      using setup_failed_no_upload [of e s c] by (simp add: filter_empty_conv)
    with Pair Inl show ?thesis by (simp add: main_early)
  next
    case (Inr pvb)
    obtain p v b where pvb: "pvb = (p, v, b)" by (cases pvb)
    have ms: "main_setup e = (s, Inr (p, v, b))" using Pair Inr pvb by simp
    obtain pre where pre: "s = pre @ fst (main_vertices e)" "\<forall>x\<in>set pre. \<not> is_buffer_data x"
      using setup_ready_shape [OF ms] by blast
    have f: "filter is_buffer_data (fst (render_loop e p v fuel 0 False)) = []"
      using frames_buffers [of e p v fuel 0 False] by (simp add: filter_empty_conv)
    have "filter is_buffer_data pre = []"
      using pre(2) by (simp add: filter_empty_conv)
    then show ?thesis
      unfolding main_loop [OF ms] pre(1) using f ms
      by (simp add: vertices_events is_buffer_data_def sizeof_float_def)
  qed
qed

lemma store_after_upload:
  assumes ms: "main_setup e = (s, Inr (p, v, b))" and b: "b \<noteq> 0"
    and q: "prefix q (fst (main e fuel))" "list_ex is_buffer_data q" "GlDeleteBuffers 1 b \<notin> set q"
  shows "snd (buffers_after q) b = Some vertices"
proof -
  let ?U = "GlBufferData GL_ARRAY_BUFFER 36 vertices GL_STATIC_DRAW"
  let ?V1 = "[GlGenVertexArrays 1 v, GlBindVertexArray v, GlGenBuffers 1 b, GlBindBuffer GL_ARRAY_BUFFER b]"
  let ?V2 = "[GlVertexAttribPointer 0 3 GL_FLOAT False 12 0, GlEnableVertexAttribArray 0,
              GlBindBuffer GL_ARRAY_BUFFER 0, GlBindVertexArray 0]"
  let ?frames = "fst (render_loop e p v fuel 0 False)"
  let ?cleanup = "[GlDeleteVertexArrays 1 v, GlDeleteBuffers 1 b, GlDeleteProgram p, GlfwTerminate]"
  obtain pre where pre: "s = pre @ fst (main_vertices e)"
      "\<forall>x\<in>set pre. \<not> is_buffer_data x \<and> (\<forall>st. buffer_step st x = st)"
      and v: "v = glGenVertexArrays_ret e" and b': "b = glGenBuffers_ret e"
    using setup_ready_shape [OF ms] by blast
  define rest where "rest = ?V2 @ ?frames @ (if snd (render_loop e p v fuel 0 False) then ?cleanup else [])"
  have t: "fst (main e fuel) = (pre @ ?V1) @ ?U # rest"
    unfolding main_loop [OF ms] pre(1) rest_def by (simp add: vertices_events v b')
  obtain x where x: "x \<in> set q" "is_buffer_data x"
    using q(2) by (auto simp: list_ex_iff)
  have "x \<notin> set (pre @ ?V1)"
    using x(2) pre(2) by (auto simp: is_buffer_data_def)
  then obtain r where r: "q = (pre @ ?V1) @ r" "prefix r (?U # rest)"
    using prefix_past [OF q(1) [unfolded t] x(1)] by blast
  have "r \<noteq> []"
    using x \<open>x \<notin> set (pre @ ?V1)\<close> r(1) by auto
  then obtain r' where r': "r = ?U # r'" "prefix r' rest"
    using r(2) by (cases r) simp_all
  have keep: "\<forall>y\<in>set r'. \<not> is_buffer_data y \<and> (\<forall>n. y \<noteq> GlDeleteBuffers n b)"
  proof
    fix y assume y: "y \<in> set r'"
    then have "y \<in> set rest" using r'(2) by (auto dest: set_mono_prefix)
    moreover have "y \<noteq> GlDeleteBuffers 1 b"
      using y q(3) r(1) r'(1) by auto
    ultimately show "\<not> is_buffer_data y \<and> (\<forall>n. y \<noteq> GlDeleteBuffers n b)"
      using frames_buffers [of e p v fuel 0 False b]
      by (auto simp: rest_def is_buffer_data_def split: if_splits)
  qed
  have "foldl buffer_step (0, Map.empty) pre = (0, Map.empty)"
    using pre(2) by (intro foldl_buffer_neutral) simp
  then have "foldl buffer_step (0, Map.empty) ((pre @ ?V1) @ [?U]) = (b, [b \<mapsto> vertices])"
    using b by (simp add: buffer_step_def sizeof_float_def length_vertices)
  then have "buffers_after q = foldl buffer_step (b, [b \<mapsto> vertices]) r'"
    unfolding buffers_after_def r(1) r'(1) by simp
  then show ?thesis
    using foldl_buffer_keeps [OF keep, of "(b, [b \<mapsto> vertices])"] by simp
qed

text \<open>
  C8. The triangle is 9 floats. A run of \<^verbatim>\<open>main\<close> that gets past linking makes exactly one
  \<^verbatim>\<open>glBufferData\<close> call, which hands the 9 floats (36 bytes) to the buffer bound to
  \<^verbatim>\<open>GL_ARRAY_BUFFER\<close>; a run that fails earlier makes none. From that call on, for as long
  as the buffer is not deleted, the data store of the vertex buffer holds those 9 floats:
  no later call of the run changes it.
\<close>

theorem vertex_buffer_uploaded_once:
  "length vertices = 9
   \<and> filter is_buffer_data (fst (main e fuel)) =
       (case snd (main_setup e) of
          Inl c \<Rightarrow> []
        | Inr r \<Rightarrow> [GlBufferData GL_ARRAY_BUFFER (9 * sizeof_float) vertices GL_STATIC_DRAW])
   \<and> (glGenBuffers_ret e \<noteq> 0 \<and> prefix q (fst (main e fuel)) \<and> list_ex is_buffer_data q
        \<and> GlDeleteBuffers 1 (glGenBuffers_ret e) \<notin> set q \<longrightarrow>
      snd (buffers_after q) (glGenBuffers_ret e) = Some vertices)"
proof (intro conjI impI)
  show "length vertices = 9" by (rule length_vertices)
  show "filter is_buffer_data (fst (main e fuel)) =
       (case snd (main_setup e) of
          Inl c \<Rightarrow> []
        | Inr r \<Rightarrow> [GlBufferData GL_ARRAY_BUFFER (9 * sizeof_float) vertices GL_STATIC_DRAW])"
    by (rule uploads_of_main)
  assume h: "glGenBuffers_ret e \<noteq> 0 \<and> prefix q (fst (main e fuel)) \<and> list_ex is_buffer_data q
        \<and> GlDeleteBuffers 1 (glGenBuffers_ret e) \<notin> set q"
  show "snd (buffers_after q) (glGenBuffers_ret e) = Some vertices"
  proof (cases "main_setup e")
    case (Pair s r)
    show ?thesis
    proof (cases r)
      case (Inl c)
      have "filter is_buffer_data (fst (main e fuel)) = []"
        using uploads_of_main [of e fuel] Pair Inl by simp
      then have "\<forall>x\<in>set q. \<not> is_buffer_data x"
        using h by (auto simp: filter_empty_conv dest: set_mono_prefix)
      with h show ?thesis by (auto simp: list_ex_iff)
    next
      case (Inr pvb)
      obtain p v b where pvb: "pvb = (p, v, b)" by (cases pvb)
      have ms: "main_setup e = (s, Inr (p, v, b))" using Pair Inr pvb by simp
      have b: "b = glGenBuffers_ret e"
        using setup_ready_shape [OF ms] by blast
      show ?thesis
        using store_after_upload [OF ms, of q fuel] h unfolding b by simp
    qed
  qed
qed

lemma sample_prefix_facts:
  "list_ex is_buffer_data (take 50 (fst (main sample_env 4)))"
  "GlDeleteBuffers 1 1 \<notin> set (take 50 (fst (main sample_env 4)))"
  "length (filter is_draw (take 50 (fst (main sample_env 4)))) = 2"
  by code_simp+

theorem vertex_buffer_uploaded_once_witness:
  "glGenBuffers_ret sample_env \<noteq> 0
   \<and> prefix (take 50 (fst (main sample_env 4))) (fst (main sample_env 4))
   \<and> list_ex is_buffer_data (take 50 (fst (main sample_env 4)))
   \<and> GlDeleteBuffers 1 (glGenBuffers_ret sample_env) \<notin> set (take 50 (fst (main sample_env 4)))
   \<and> length (filter is_draw (take 50 (fst (main sample_env 4)))) = 2
   \<and> snd (buffers_after (take 50 (fst (main sample_env 4)))) (glGenBuffers_ret sample_env) = Some vertices"
proof -
  have b: "glGenBuffers_ret sample_env = 1"
    by (simp add: sample_env_def)
  from vertex_buffer_uploaded_once [of sample_env 4 "take 50 (fst (main sample_env 4))"]
    sample_prefix_facts b
  show ?thesis by (simp add: take_is_prefix)
qed

section \<open>Loading the sources\<close>

text \<open>
  C4, where the code departs from it. \<^verbatim>\<open>vshader.vert\<close> can be opened and cannot be read:
  \<^verbatim>\<open>loadShaderSourceFromFile\<close> returns the empty string and reports nothing, neither the
  path nor a reason, and \<^verbatim>\<open>main\<close> returns \<open>-1\<close> without having written a line. Line 188
  arms \<^verbatim>\<open>shaderFile\<close>, but the read of line 192 is an insertion into \<^verbatim>\<open>shaderStream\<close>, which
  keeps the failure to itself. When the read fails after some characters, \<^verbatim>\<open>main\<close> goes on
  with what was read and calls \<^verbatim>\<open>glCreateProgram\<close>.
\<close>

theorem unreadable_source_is_not_reported:
  "file_system unreadable_file_env ''vshader.vert'' = Opens [] (ReadFailsAfter 0) None
   \<and> loadShaderSourceFromFile unreadable_file_env ''vshader.vert'' = ([], [])
   \<and> stderr_of (fst (main unreadable_file_env 4)) = []
   \<and> snd (main unreadable_file_env 4) = Some (- 1)
   \<and> file_system failing_read_env ''vshader.vert'' = Opens ''void main(){}'' (ReadFailsAfter 4) None
   \<and> stderr_of (fst (main failing_read_env 4)) = []
   \<and> GlCreateProgram 3 \<in> set (fst (main failing_read_env 4))"
  by code_simp

text \<open>
  C9, where the code departs from it. Reading \<^verbatim>\<open>vshader.vert\<close> fails after four of its
  characters: \<^verbatim>\<open>loadShaderSourceFromFile\<close> returns those four, which is neither the file's
  contents nor the empty string, and reports nothing.
\<close>

theorem failing_read_returns_a_prefix:
  "file_system failing_read_env ''vshader.vert'' = Opens ''void main(){}'' (ReadFailsAfter 4) None
   \<and> loadShaderSourceFromFile failing_read_env ''vshader.vert'' = ([], ''void'')
   \<and> ''void'' \<noteq> ''void main(){}'' \<and> ''void'' \<noteq> []"
  by code_simp

lemma sources_ok:
  assumes "main_sources e = (s, Inr (a, b))"
  shows "snd (loadShaderSourceFromFile e ''vshader.vert'') \<noteq> []"
    and "snd (loadShaderSourceFromFile e ''fshader.frag'') \<noteq> []"
  using assms by (auto simp: main_sources_def case_prod_beta split: if_splits)

lemma window_failed_last: "main_window e = (w, Inl c) \<Longrightarrow> last w = GlfwTerminate"
  by (auto simp: main_window_def Let_def split: if_splits)

lemma sources_failed_last: "main_sources e = (s, Inl c) \<Longrightarrow> last s = GlfwTerminate \<and> s \<noteq> []"
  by (auto simp: main_sources_def case_prod_beta split: if_splits)

lemma empty_source_aborts:
  assumes h: "snd (loadShaderSourceFromFile e ''vshader.vert'') = []
        \<or> snd (loadShaderSourceFromFile e ''fshader.frag'') = []"
  shows "snd (main e fuel) = Some (- 1) \<and> \<not> list_ex is_link_call (fst (main e fuel))
      \<and> created (fst (main e fuel)) = [] \<and> last (fst (main e fuel)) = GlfwTerminate"
proof (rule main_setup_cases [of e])
  fix w c
  assume W: "main_window e = (w, Inl c)" and ms: "main_setup e = (w, Inl c)"
  have "list_all startup_call w"
    using window_calls [of e] W by simp
  then have "\<not> list_ex is_link_call w" "created w = []"
    by (auto simp: list_ex_iff list_all_iff startup_ledger(2) dest: startup_call_neutral)
  then show ?thesis
    using main_early [OF ms, of fuel] window_code [OF W] window_failed_last [OF W] by simp
next
  fix w s c
  assume W: "main_window e = (w, Inr ())" and S: "main_sources e = (s, Inl c)"
    and ms: "main_setup e = (w @ s, Inl c)"
  have ws: "list_all startup_call (w @ s)"
    using window_calls [of e] sources_calls [of e] W S by simp
  then have "\<not> list_ex is_link_call (w @ s)"
    by (auto simp: list_ex_iff list_all_iff dest: startup_call_neutral)
  moreover have "created (w @ s) = []"
    by (rule startup_ledger(2) [OF ws])
  ultimately show ?thesis
    using main_early [OF ms, of fuel] sources_code [OF S] sources_failed_last [OF S] by simp
next
  fix w s a b sh c
  assume "main_sources e = (s, Inr (a, b))"
  from sources_ok [OF this] h show ?thesis by simp
next
  fix w s a b sh v f pr c
  assume "main_sources e = (s, Inr (a, b))"
  from sources_ok [OF this] h show ?thesis by simp
next
  fix w s a b sh v f pr p
  assume "main_sources e = (s, Inr (a, b))"
  from sources_ok [OF this] h show ?thesis by simp
qed

text \<open>
  X1, the part of C4 that the code keeps. A path that cannot be opened: the path and the
  reason are written to standard error under the file tag and the empty string is returned.
  Whenever one of the two sources comes back empty, \<^verbatim>\<open>main\<close> returns \<open>-1\<close> after
  \<^verbatim>\<open>glfwTerminate\<close>, has made no GPU object and none of the calls that build a program.
\<close>

theorem missing_source_is_fatal:
  "(file_system e path = CannotOpen what \<longrightarrow>
      loadShaderSourceFromFile e path =
        ([Cerr (''ERROR::SHADER::FILE_NOT_SUCCESSFULLY_READ: '' @ path @ [CHR 0x0A] @ what @ endl)], []))
   \<and> (snd (loadShaderSourceFromFile e ''vshader.vert'') = []
        \<or> snd (loadShaderSourceFromFile e ''fshader.frag'') = [] \<longrightarrow>
      snd (main e fuel) = Some (- 1)
      \<and> \<not> list_ex is_link_call (fst (main e fuel))
      \<and> created (fst (main e fuel)) = []
      \<and> last (fst (main e fuel)) = GlfwTerminate)"
  using empty_source_aborts [of e fuel] by (simp add: loadShaderSourceFromFile_def)

theorem missing_source_is_fatal_witness:
  "file_system missing_file_env ''vshader.vert'' = CannotOpen ''basic_ios::clear: iostream error''
   \<and> loadShaderSourceFromFile missing_file_env ''vshader.vert'' =
       ([Cerr (''ERROR::SHADER::FILE_NOT_SUCCESSFULLY_READ: vshader.vert'' @ [CHR 0x0A]
               @ ''basic_ios::clear: iostream error'' @ [CHR 0x0A])], [])
   \<and> snd (main missing_file_env 4) = Some (- 1)
   \<and> \<not> list_ex is_link_call (fst (main missing_file_env 4))
   \<and> created (fst (main missing_file_env 4)) = []
   \<and> last (fst (main missing_file_env 4)) = GlfwTerminate"
proof -
  have h: "file_system missing_file_env ''vshader.vert'' = CannotOpen ''basic_ios::clear: iostream error''"
    by (simp add: missing_file_env_def sample_env_def)
  from missing_source_is_fatal
    [of missing_file_env "''vshader.vert''" "''basic_ios::clear: iostream error''" 4] h
  show ?thesis by (simp add: endl_def)
qed

text \<open>
  X2, the part of C9 that the code keeps. A file that is read to its end comes back whole; a
  file that is there, is read to its end and has no characters comes back as the empty
  string with nothing reported, and \<^verbatim>\<open>main\<close> then takes the exit of a failed load. When the
  window and the loader are there, its only words are none: nothing is written to
  standard error.
\<close>

theorem empty_source_exits_like_failure:
  "(file_system e path = Opens contents ReadComplete None \<longrightarrow>
      loadShaderSourceFromFile e path = ([], contents))
   \<and> (file_system e ''vshader.vert'' = Opens [] ReadComplete None \<longrightarrow>
        loadShaderSourceFromFile e ''vshader.vert'' = ([], [])
        \<and> snd (main e fuel) = Some (- 1)
        \<and> (glfwCreateWindow_ok e \<and> gladLoadGLLoader_ok e \<longrightarrow> stderr_of (fst (main e fuel)) = []))"
proof (intro conjI impI)
  assume "file_system e path = Opens contents ReadComplete None"
  then show "loadShaderSourceFromFile e path = ([], contents)"
    by (simp add: loadShaderSourceFromFile_def)
next
  assume h: "file_system e ''vshader.vert'' = Opens [] ReadComplete None"
  then show l: "loadShaderSourceFromFile e ''vshader.vert'' = ([], [])"
    by (simp add: loadShaderSourceFromFile_def)
  then show "snd (main e fuel) = Some (- 1)"
    using empty_source_aborts [of e fuel] by simp
  assume "glfwCreateWindow_ok e \<and> gladLoadGLLoader_ok e"
  with l have "main_setup e = (fst (main_window e) @ [GlfwTerminate], Inl (- 1))"
    "stderr_of (fst (main_window e)) = []"
    by (simp_all add: main_setup_def and_then_def main_sources_def main_window_def Let_def)
  then show "stderr_of (fst (main e fuel)) = []"
    by (simp add: main_early stderr_of_append)
qed

theorem empty_source_exits_like_failure_witness:
  "file_system empty_file_env ''vshader.vert'' = Opens [] ReadComplete None
   \<and> loadShaderSourceFromFile empty_file_env ''vshader.vert'' = ([], [])
   \<and> snd (main empty_file_env 4) = Some (- 1)
   \<and> glfwCreateWindow_ok empty_file_env \<and> gladLoadGLLoader_ok empty_file_env
   \<and> stderr_of (fst (main empty_file_env 4)) = []"
proof -
  have h: "file_system empty_file_env ''vshader.vert'' = Opens [] ReadComplete None"
    "glfwCreateWindow_ok empty_file_env" "gladLoadGLLoader_ok empty_file_env"
    by (simp_all add: empty_file_env_def sample_env_def)
  from empty_source_exits_like_failure [of empty_file_env "''vshader.vert''" "[]" 4] h
  show ?thesis by simp
qed

section \<open>Leaving the loop\<close>

lemma render_loop_leaves:
  "c \<or> (\<exists>j. i \<le> j \<and> j < i + n
           \<and> (glfwGetKey_ret e j GLFW_KEY_ESCAPE = GLFW_PRESS \<or> close_requested e j))
   \<Longrightarrow> snd (render_loop e p v (Suc n) i c)"
proof (induction n arbitrary: i c)
  case 0
  then show ?case by (auto simp: case_prod_beta)
next
  case (Suc n)
  show ?case
  proof (cases c)
    case True
    then show ?thesis by simp
  next
    case False
    with Suc.prems obtain j where j: "i \<le> j" "j < i + Suc n"
      "glfwGetKey_ret e j GLFW_KEY_ESCAPE = GLFW_PRESS \<or> close_requested e j"
      by blast
    have "snd (render_body e p v i False) \<or> (\<exists>j. Suc i \<le> j \<and> j < Suc i + n
           \<and> (glfwGetKey_ret e j GLFW_KEY_ESCAPE = GLFW_PRESS \<or> close_requested e j))"
    proof (cases "j = i")
      case True
      with j(3) show ?thesis by (simp add: render_body_flag)
    next
      case False
      with j have "Suc i \<le> j \<and> j < Suc i + n" by simp
      with j(3) show ?thesis by blast
    qed
    from Suc.IH [OF this] False show ?thesis
      by (simp add: case_prod_beta)
  qed
qed

text \<open>
  X3. The loop is left, and \<^verbatim>\<open>main\<close> returns 0, as soon as somebody closes the window: when the
  setup went through and escape is down or a close request arrives in one of the first
  \<open>n\<close> frames, \<open>n + 1\<close> evaluations of the loop condition are enough. Until then the loop
  runs on.
\<close>

theorem main_returns_once_closed:
  "(main_setup e = (s, Inr r)
      \<and> j < n \<and> (glfwGetKey_ret e j GLFW_KEY_ESCAPE = GLFW_PRESS \<or> close_requested e j) \<longrightarrow>
      snd (main e (Suc n)) = Some 0)
   \<and> (main_setup e = (s, Inr r)
        \<and> (\<forall>j<n. glfwGetKey_ret e j GLFW_KEY_ESCAPE \<noteq> GLFW_PRESS \<and> \<not> close_requested e j) \<longrightarrow>
      snd (main e (Suc n)) = None)"
proof (intro conjI impI)
  assume h: "main_setup e = (s, Inr r)
      \<and> j < n \<and> (glfwGetKey_ret e j GLFW_KEY_ESCAPE = GLFW_PRESS \<or> close_requested e j)"
  obtain p v b where r: "r = (p, v, b)" by (cases r)
  have "snd (render_loop e p v (Suc n) 0 False)"
    using h by (intro render_loop_leaves) auto
  then show "snd (main e (Suc n)) = Some 0"
    using main_loop [of e s p v b "Suc n"] h r by simp
next
  assume h: "main_setup e = (s, Inr r)
        \<and> (\<forall>j<n. glfwGetKey_ret e j GLFW_KEY_ESCAPE \<noteq> GLFW_PRESS \<and> \<not> close_requested e j)"
  obtain p v b where r: "r = (p, v, b)" by (cases r)
  have "\<forall>j. i \<le> j \<and> j < i + m \<longrightarrow> glfwGetKey_ret e j GLFW_KEY_ESCAPE \<noteq> GLFW_PRESS \<and> \<not> close_requested e j
      \<Longrightarrow> \<not> snd (render_loop e p v (Suc m) i False)" for i m
  proof (induction m arbitrary: i)
    case 0
    then show ?case by (simp add: case_prod_beta)
  next
    case (Suc m)
    have "\<not> snd (render_body e p v i False)"
      using Suc.prems by (simp add: render_body_flag)
    moreover have "\<not> snd (render_loop e p v (Suc m) (Suc i) False)"
      using Suc.prems by (intro Suc.IH) auto
    ultimately show ?case
      by (simp add: case_prod_beta)
  qed
  from this [of 0 n] h have "\<not> snd (render_loop e p v (Suc n) 0 False)"
    by simp
  then show "snd (main e (Suc n)) = None"
    using main_loop [of e s p v b "Suc n"] h r by simp
qed

theorem main_returns_once_closed_witness:
  "main_setup sample_env = (fst (main_setup sample_env), Inr (3, 1, 1))
   \<and> (2::nat) < 3 \<and> glfwGetKey_ret sample_env 2 GLFW_KEY_ESCAPE = GLFW_PRESS
   \<and> snd (main sample_env 4) = Some 0
   \<and> snd (main sample_env 3) = None"
proof -
  have h: "main_setup sample_env = (fst (main_setup sample_env), Inr (3, 1, 1))"
    using sample_setup_result by (simp add: prod_eq_iff)
  have k: "glfwGetKey_ret sample_env 2 GLFW_KEY_ESCAPE = GLFW_PRESS"
    "\<forall>j<2. glfwGetKey_ret sample_env j GLFW_KEY_ESCAPE \<noteq> GLFW_PRESS \<and> \<not> close_requested sample_env j"
    by (simp_all add: sample_env_def GLFW_PRESS_def GLFW_RELEASE_def)
  have "snd (main sample_env (Suc 3)) = Some 0"
    using main_returns_once_closed [of sample_env "fst (main_setup sample_env)" "(3, 1, 1)" 2 3] h k(1)
    by simp
  moreover have "snd (main sample_env (Suc 2)) = None"
    using main_returns_once_closed [of sample_env "fst (main_setup sample_env)" "(3, 1, 1)" 0 2] h k(2)
    by simp
  ultimately show ?thesis
    using h k(1) by (simp add: eval_nat_numeral)
qed

end
